theory Spec2Isabelle
  imports Main
begin

section \<open>Python values handled by \<open>bedrock_invoke.py\<close>\<close>

text \<open>
  The script is one function, \<open>main\<close>, that reads three environment variables and the
  ambient region, calls up to four remote operations of the SDK and prints to two streams.
  The embedding makes each of these explicit:
  \<^item> the environment, the region lookup, the construction of the session and its
    clients, the four remote operations and the encoder of standard output are the
    fields of a record \<open>world\<close>;
  \<^item> every \<open>print\<close>, \<open>eprint\<close> and remote call of a run is an \<open>event\<close> of its trace, in
    program order;
  \<^item> every exception is a value of \<open>exn\<close>, and every operation of Python that may raise
    returns \<open>exn + 'a\<close>;
  \<^item> the way the process ends (return from \<open>main\<close>, \<open>sys.exit(n)\<close>, an exception
    that leaves \<open>main\<close>) is an \<open>outcome\<close>.

  A Python \<open>str\<close> is represented by its UTF-8 encoding, a \<open>string\<close>; a \<open>bytes\<close> object
  is a \<open>string\<close> as well (a \<open>char\<close> is one byte).
\<close>

text \<open>
  Exceptions. \<open>ClientError\<close> is \<open>botocore.exceptions.ClientError\<close>; the next five are the
  builtin exceptions the operations of \<open>main\<close> itself can raise; \<open>OtherError\<close> is any
  other subclass of \<open>Exception\<close> (for instance \<open>EndpointConnectionError\<close>,
  \<open>NoCredentialsError\<close> or \<open>ProfileNotFound\<close>, which are not \<open>ClientError\<close>s). Every
  constructor is a subclass of \<open>Exception\<close>.
\<close>

datatype exn =
    ClientError string
  | AttributeError
  | TypeError
  | KeyError
  | UnicodeDecodeError
  | UnicodeEncodeError
  | OtherError string

fun is_ClientError :: "exn \<Rightarrow> bool" where
  "is_ClientError (ClientError m) = True"
| "is_ClientError e = False"

text \<open>
  The values a parsed service response is made of. \<open>PObj\<close> is an object that is none of
  the JSON types (a \<open>datetime\<close> in a profile descriptor, say), named by its \<open>str()\<close>.
  Floats are left out.
\<close>

datatype pyval =
    PNone
  | PBool bool
  | PInt int
  | PStr string
  | PList "pyval list"
  | PDict "(string \<times> pyval) list"
  | PObj string

text \<open>
  The value under the key \<open>body\<close> of an \<open>invoke_model\<close> response: a stream-like object
  (it has a \<open>read\<close> method, whose result or exception is the argument of \<open>Stream\<close>), or
  data that is already there, \<open>bytes\<close> or anything else.
\<close>

datatype pydata = Bytes string | Val pyval

datatype pybody = Stream "exn + pydata" | Direct pydata

text \<open>
  What is printed. A string literal of the source is \<open>Lit\<close>; text that comes from a
  response (the joined text segments, the decoded payload, the \<open>str\<close> of a \<open>str\<close>) is
  \<open>Data\<close>; the renderings done by library functions stay symbolic:
  \<open>json.dumps(v, indent=2)\<close>, \<open>json.dumps(v, indent=2, default=str)\<close>, \<open>str(v)\<close>,
  \<open>str(e)\<close> and \<open>repr(e)\<close>.
\<close>

datatype printed =
    Lit string
  | Data string
  | JsonDumps pyval
  | JsonDumpsStr pyval
  | StrOf pyval
  | StrExn exn
  | ReprExn exn

text \<open>The keyword arguments of the four remote calls, as \<open>main\<close> passes them.\<close>

datatype call =
    GetInferenceProfile string
  | Converse string pyval pyval
  | InvokeModel string string string pyval
  | GetCallerIdentity

datatype event = Stdout printed | Stderr printed | Call call

text \<open>\<open>eprint\<close> (lines 9 and 10) is \<open>print\<close> with \<open>file=sys.stderr\<close>. The encoder of
  \<open>sys.stderr\<close> replaces what it cannot encode (\<open>backslashreplace\<close>), so \<open>eprint\<close> does
  not raise; \<open>print\<close> to standard output can, and is defined below.\<close>

abbreviation eprint :: "printed \<Rightarrow> event" where
  "eprint t \<equiv> Stderr t"

text \<open>
  \<open>Returned\<close>: \<open>main\<close> returned; \<open>Exit n\<close>: \<open>sys.exit(n)\<close>; \<open>Uncaught e\<close>: the exception
  \<open>e\<close> left \<open>main\<close>, and the interpreter prints a traceback and ends with status 1.
\<close>

datatype outcome = Returned | Exit nat | Uncaught exn

fun exit_code :: "outcome \<Rightarrow> nat" where
  "exit_code Returned = 0"
| "exit_code (Exit n) = n"
| "exit_code (Uncaught e) = 1"

text \<open>
  \<^item> \<open>getenv\<close>: \<open>os.getenv\<close>;
  \<^item> \<open>region_name\<close>: \<open>boto3.session.Session().region_name\<close> (line 16), which gives a
    region, gives \<open>None\<close>, or raises (\<open>ProfileNotFound\<close> when \<open>AWS_PROFILE\<close> names no
    profile);
  \<^item> \<open>clients\<close>: lines 28 to 30, the session for a region and its two clients, which
    are built (\<open>None\<close>) or raise (\<open>InvalidRegionError\<close>, say);
  \<^item> \<open>has_get_inference_profile\<close>: \<open>hasattr(bedrock_ctrl, "get_inference_profile")\<close>;
  \<^item> the four remote operations, each answering with a value or an exception;
  \<^item> \<open>stdout_encodes\<close>: whether the encoding of \<open>sys.stdout\<close> has all the characters of a
    text. It matters for text outside ASCII only, see \<open>print\<close>.
\<close>

record world =
  getenv :: "string \<Rightarrow> string option"
  region_name :: "exn + string option"
  clients :: "string \<Rightarrow> exn option"
  has_get_inference_profile :: bool
  get_inference_profile :: "string \<Rightarrow> exn + pyval"
  converse :: "string \<Rightarrow> pyval \<Rightarrow> pyval \<Rightarrow> exn + pyval"
  invoke_model :: "string \<Rightarrow> string \<Rightarrow> string \<Rightarrow> pyval \<Rightarrow> exn + (string \<times> pybody) list"
  get_caller_identity :: "exn + pyval"
  stdout_encodes :: "printed \<Rightarrow> bool"

section \<open>The operations of Python that \<open>main\<close> uses\<close>

text \<open>Truth value of an object (\<open>not x\<close>, \<open>x or y\<close>, \<open>a if x else b\<close>).\<close>

fun truthy :: "pyval \<Rightarrow> bool" where
  "truthy PNone = False"
| "truthy (PBool b) = b"
| "truthy (PInt i) = (i \<noteq> 0)"
| "truthy (PStr s) = (s \<noteq> [])"
| "truthy (PList xs) = (xs \<noteq> [])"
| "truthy (PDict kvs) = (kvs \<noteq> [])"
| "truthy (PObj n) = True"

text \<open>\<open>os.getenv\<close> gives \<open>None\<close> or a \<open>str\<close>; both \<open>None\<close> and the empty string are false.\<close>

fun env_truthy :: "string option \<Rightarrow> bool" where
  "env_truthy None = False"
| "env_truthy (Some s) = (s \<noteq> [])"

definition py_or :: "string option \<Rightarrow> string option \<Rightarrow> string option" where
  "py_or a b = (if env_truthy a then a else b)"

text \<open>\<open>os.getenv(name, default)\<close>: the default only when the variable is not set.\<close>

definition getenv_default :: "world \<Rightarrow> string \<Rightarrow> string \<Rightarrow> string" where
  "getenv_default w name dflt = (case getenv w name of None \<Rightarrow> dflt | Some v \<Rightarrow> v)"

text \<open>\<open>d.get(key, default)\<close>: only a dict has the method.\<close>

fun py_get :: "pyval \<Rightarrow> string \<Rightarrow> pyval \<Rightarrow> exn + pyval" where
  "py_get (PDict kvs) k dflt = (case map_of kvs k of None \<Rightarrow> Inr dflt | Some v \<Rightarrow> Inr v)"
| "py_get v k dflt = Inl AttributeError"

text \<open>The characters of a \<open>str\<close>: a lead byte with the continuation bytes after it.\<close>

definition is_cont :: "char \<Rightarrow> bool" where
  "is_cont c = (0x80 \<le> (of_char c :: nat) \<and> (of_char c :: nat) \<le> 0xBF)"

function utf8_chars :: "string \<Rightarrow> string list" where
  "utf8_chars [] = []"
| "utf8_chars (c # cs) = (c # takeWhile is_cont cs) # utf8_chars (dropWhile is_cont cs)"
  by pat_completeness auto
termination
  by (relation "measure length") (auto simp: length_dropWhile_le less_Suc_eq_le)

text \<open>\<open>for p in parts\<close>: the elements of a list, the keys of a dict, the characters of
  a \<open>str\<close>; nothing else here is iterable.\<close>

fun py_iter :: "pyval \<Rightarrow> exn + pyval list" where
  "py_iter (PList xs) = Inr xs"
| "py_iter (PDict kvs) = Inr (map (\<lambda>kv. PStr (fst kv)) kvs)"
| "py_iter (PStr s) = Inr (map PStr (utf8_chars s))"
| "py_iter v = Inl TypeError"

text \<open>\<open>s in t\<close> on two \<open>str\<close>: \<open>s\<close> occurs in \<open>t\<close>.\<close>

fun substring :: "string \<Rightarrow> string \<Rightarrow> bool" where
  "substring s [] = (s = [])"
| "substring s (c # cs) = (take (length s) (c # cs) = s \<or> substring s cs)"

text \<open>\<open>k in p\<close> for a \<open>str\<close> \<open>k\<close>: a key of a dict, an element of a list, a substring
  of a \<open>str\<close>; a \<open>TypeError\<close> on anything else.\<close>

fun py_contains :: "string \<Rightarrow> pyval \<Rightarrow> exn + bool" where
  "py_contains k (PDict kvs) = Inr (k \<in> set (map fst kvs))"
| "py_contains k (PList xs) = Inr (PStr k \<in> set xs)"
| "py_contains k (PStr s) = Inr (substring k s)"
| "py_contains k v = Inl TypeError"

text \<open>\<open>p[k]\<close> for a \<open>str\<close> \<open>k\<close>: the value of a dict; a \<open>str\<close> and a list take integer
  indices only.\<close>

fun py_getitem :: "pyval \<Rightarrow> string \<Rightarrow> exn + pyval" where
  "py_getitem (PDict kvs) k = (case map_of kvs k of None \<Rightarrow> Inl KeyError | Some v \<Rightarrow> Inr v)"
| "py_getitem v k = Inl TypeError"

text \<open>\<open>"\n".join(texts)\<close>: every item must be a \<open>str\<close>.\<close>

definition nl :: char where
  "nl = CHR 0x0A"

fun join_nl :: "pyval list \<Rightarrow> exn + string" where
  "join_nl [] = Inr []"
| "join_nl [PStr s] = Inr s"
| "join_nl (PStr s # t # ts) =
     (case join_nl (t # ts) of Inl e \<Rightarrow> Inl e | Inr r \<Rightarrow> Inr (s @ nl # r))"
| "join_nl (v # ts) = Inl TypeError"

text \<open>
  \<open>data.decode("utf-8")\<close>: the bytes must be well-formed UTF-8 (no stray continuation
  byte, no truncated or overlong sequence, no surrogate, nothing above U+10FFFF); the
  result is the text those bytes encode.
\<close>

definition byte_in :: "nat \<Rightarrow> nat \<Rightarrow> char \<Rightarrow> bool" where
  "byte_in lo hi c = (lo \<le> of_char c \<and> of_char c \<le> hi)"

fun utf8_valid :: "string \<Rightarrow> bool" where
  "utf8_valid [] = True"
| "utf8_valid (c # cs) =
     (if byte_in 0x00 0x7F c then utf8_valid cs
      else if byte_in 0xC2 0xDF c then
        (case cs of c1 # r \<Rightarrow> is_cont c1 \<and> utf8_valid r | _ \<Rightarrow> False)
      else if byte_in 0xE0 0xEF c then
        (case cs of
           c1 # c2 # r \<Rightarrow>
             (if byte_in 0xE0 0xE0 c then byte_in 0xA0 0xBF c1
              else if byte_in 0xED 0xED c then byte_in 0x80 0x9F c1
              else is_cont c1) \<and> is_cont c2 \<and> utf8_valid r
         | _ \<Rightarrow> False)
      else if byte_in 0xF0 0xF4 c then
        (case cs of
           c1 # c2 # c3 # r \<Rightarrow>
             (if byte_in 0xF0 0xF0 c then byte_in 0x90 0xBF c1
              else if byte_in 0xF4 0xF4 c then byte_in 0x80 0x8F c1
              else is_cont c1) \<and> is_cont c2 \<and> is_cont c3 \<and> utf8_valid r
         | _ \<Rightarrow> False)
      else False)"

definition decode_utf8 :: "string \<Rightarrow> exn + string" where
  "decode_utf8 bs = (if utf8_valid bs then Inr bs else Inl UnicodeDecodeError)"

text \<open>\<open>str(v)\<close>: a \<open>str\<close> is its own text, \<open>None\<close> and the booleans print their names.\<close>

fun py_str :: "pyval \<Rightarrow> printed" where
  "py_str (PStr s) = Data s"
| "py_str PNone = Data ''None''"
| "py_str (PBool True) = Data ''True''"
| "py_str (PBool False) = Data ''False''"
| "py_str v = StrOf v"

text \<open>\<open>json.dumps\<close> without \<open>default\<close> raises \<open>TypeError\<close> on an object that is none of
  the JSON types, at any depth.\<close>

fun serializable :: "pyval \<Rightarrow> bool" where
  "serializable (PObj n) = False"
| "serializable (PList xs) = list_all serializable xs"
| "serializable (PDict kvs) = list_all (\<lambda>kv. serializable (snd kv)) kvs"
| "serializable v = True"

definition json_dumps :: "pyval \<Rightarrow> exn + printed" where
  "json_dumps v = (if serializable v then Inr (JsonDumps v) else Inl TypeError)"

text \<open>
  Text that is ASCII. The literals of the source are; so is every result of
  \<open>json.dumps\<close>, which escapes all other characters (\<open>ensure_ascii\<close> is left at its
  default); the \<open>str\<close> of a value is when the strings in it are.
\<close>

definition ascii :: "string \<Rightarrow> bool" where
  "ascii s = list_all (\<lambda>c. (of_char c :: nat) < 128) s"

fun ascii_val :: "pyval \<Rightarrow> bool" where
  "ascii_val (PStr s) = ascii s"
| "ascii_val (PObj n) = ascii n"
| "ascii_val (PList xs) = list_all ascii_val xs"
| "ascii_val (PDict kvs) = list_all (\<lambda>kv. ascii (fst kv) \<and> ascii_val (snd kv)) kvs"
| "ascii_val v = True"

fun ascii_text :: "printed \<Rightarrow> bool" where
  "ascii_text (Lit s) = ascii s"
| "ascii_text (Data s) = ascii s"
| "ascii_text (JsonDumps v) = True"
| "ascii_text (JsonDumpsStr v) = True"
| "ascii_text (StrOf v) = ascii_val v"
| "ascii_text (StrExn e) = False"
| "ascii_text (ReprExn e) = False"

section \<open>Steps of a \<open>try\<close> body\<close>

text \<open>
  A step is the events it emitted and how it ended: \<open>Inr x\<close> with its value, \<open>Inl e\<close>
  when \<open>e\<close> was raised in it. \<open>and_then\<close> is the sequence of two statements: the second
  runs only if the first raised nothing, and the events emitted before an exception
  stay in the trace.
\<close>

type_synonym 'a step = "event list \<times> (exn + 'a)"

definition and_then :: "'a step \<Rightarrow> ('a \<Rightarrow> 'b step) \<Rightarrow> 'b step" where
  "and_then m f =
     (case m of
        (evs, Inl e) \<Rightarrow> (evs, Inl e)
      | (evs, Inr x) \<Rightarrow> (case f x of (evs', r) \<Rightarrow> (evs @ evs', r)))"

text \<open>An expression of Python that emits nothing; a remote call.\<close>

definition compute :: "exn + 'a \<Rightarrow> 'a step" where
  "compute r = ([], r)"

definition remote :: "call \<Rightarrow> exn + 'a \<Rightarrow> 'a step" where
  "remote c r = ([Call c], r)"

text \<open>
  \<open>print(t)\<close> to standard output. The text is encoded when it is written, and the write
  raises \<open>UnicodeEncodeError\<close>, with nothing written, when the encoding of \<open>sys.stdout\<close>
  lacks one of its characters. Every encoding of a terminal or a pipe has ASCII, so
  ASCII text is always printed. Other failures of the streams (a closed pipe) are not
  modelled.
\<close>

definition print_raises :: "world \<Rightarrow> printed \<Rightarrow> bool" where
  "print_raises w t = (\<not> ascii_text t \<and> \<not> stdout_encodes w t)"

definition print :: "world \<Rightarrow> printed \<Rightarrow> unit step" where
  "print w t = (if print_raises w t then ([], Inl UnicodeEncodeError) else ([Stdout t], Inr ()))"

section \<open>The program\<close>

subsection \<open>Fixed texts and request parts\<close>

definition default_prompt :: string where
  "default_prompt = ''Say hello in one short sentence.''"

definition default_region :: string where
  "default_region = ''us-east-1''"

definition arn_error_lines :: "string list" where
  "arn_error_lines =
     [''ERROR: BEDROCK_INFERENCE_PROFILE_ARN env var is not set.'',
      ''Set it, then re-run. Example:'',
      ''  export BEDROCK_INFERENCE_PROFILE_ARN=arn:aws:bedrock:us-east-1:123456789012:inference-profile/my-profile'']"

definition region_warning :: string where
  "region_warning =
     ''WARNING: No AWS region configured in your environment. Falling back to us-east-1.''"

definition profile_warning :: string where
  "profile_warning =
     ''WARN: Could not describe the inference profile (may be a permissions or SDK-version issue):''"

definition banner :: string where
  "banner = nl # ''All attempts failed. Diagnostics:''"

definition checklist :: string where
  "checklist =
     ''Checklist: '' @ nl # ''- Ensure the ARN is correct and in this region.'' @
     nl # ''- Confirm IAM permissions: bedrock:InvokeModel and bedrock:Converse on the target inference profile or routed models.'' @
     nl # ''- Verify that the routed model for the profile supports the chosen API (Converse or Anthropic Messages).'' @
     nl # ''- Confirm VPC endpoints or network egress allow Bedrock access if using private networking.''"

definition verified_line :: string where
  "verified_line = ''Verified inference profile:''"

definition skip_line :: string where
  "skip_line = ''SDK does not expose get_inference_profile; skipping profile pre-check.''"

definition converse_notice :: string where
  "converse_notice = nl # ''Attempting bedrock-runtime.converse via inference profile ARN ...''"

definition invoke_notice :: string where
  "invoke_notice =
     nl # ''Attempting bedrock-runtime.invoke_model with Anthropic-style payload ...''"

text \<open>\<open>messages=[{"role": "user", "content": [{"text": prompt}]}]\<close>\<close>

definition messages :: "string \<Rightarrow> pyval" where
  "messages prompt =
     PList [PDict [(''role'', PStr ''user''),
                   (''content'', PList [PDict [(''text'', PStr prompt)]])]]"

text \<open>\<open>inferenceConfig={"maxTokens": 128}\<close>\<close>

definition inferenceConfig :: pyval where
  "inferenceConfig = PDict [(''maxTokens'', PInt 128)]"

text \<open>The dict \<open>body\<close> of the fallback; the call sends \<open>json.dumps(body).encode("utf-8")\<close>.\<close>

definition body :: "string \<Rightarrow> pyval" where
  "body prompt =
     PDict [(''anthropic_version'', PStr ''bedrock-2023-05-31''),
            (''max_tokens'', PInt 128),
            (''messages'',
               PList [PDict [(''role'', PStr ''user''),
                             (''content'',
                                PList [PDict [(''type'', PStr ''text''),
                                              (''text'', PStr prompt)]])]])]"

definition converse_call :: "string \<Rightarrow> string \<Rightarrow> call" where
  "converse_call arn prompt = Converse arn (messages prompt) inferenceConfig"

definition invoke_call :: "string \<Rightarrow> string \<Rightarrow> call" where
  "invoke_call arn prompt =
     InvokeModel arn ''application/json'' ''application/json'' (body prompt)"

subsection \<open>The profile pre-check (lines 33 to 43)\<close>

definition verify_try :: "world \<Rightarrow> string \<Rightarrow> unit step" where
  "verify_try w arn =
     (if has_get_inference_profile w then
        and_then (remote (GetInferenceProfile arn) (get_inference_profile w arn)) (\<lambda>prof.
        and_then (print w (Lit verified_line)) (\<lambda>u.
        and_then (compute (py_get prof ''inferenceProfile'' prof)) (\<lambda>d.
        print w (JsonDumpsStr d))))
      else print w (Lit skip_line))"

text \<open>The only handler is \<open>except ClientError\<close>: any other exception goes on to the
  caller of the block, here as \<open>Some e\<close>.\<close>

definition verify_profile :: "world \<Rightarrow> string \<Rightarrow> event list \<times> exn option" where
  "verify_profile w arn =
     (case verify_try w arn of
        (evs, Inr u) \<Rightarrow> (evs, None)
      | (evs, Inl e) \<Rightarrow>
          (if is_ClientError e
           then (evs @ [eprint (Lit profile_warning), eprint (StrExn e)], None)
           else (evs, Some e)))"

subsection \<open>The conversational attempt (lines 46 to 71)\<close>

text \<open>The loop over \<open>parts\<close>, with \<open>texts\<close> as its accumulator.\<close>

fun collect_texts :: "pyval list \<Rightarrow> pyval list \<Rightarrow> exn + pyval list" where
  "collect_texts [] texts = Inr texts"
| "collect_texts (p # ps) texts =
     (case py_contains ''text'' p of
        Inl e \<Rightarrow> Inl e
      | Inr b \<Rightarrow>
          (if b then
             (case py_getitem p ''text'' of
                Inl e \<Rightarrow> Inl e
              | Inr t \<Rightarrow> collect_texts ps (texts @ [t]))
           else collect_texts ps texts))"

text \<open>Lines 58 to 62: \<open>parts\<close> and the loop; nothing is printed here.\<close>

definition extract_texts :: "pyval \<Rightarrow> exn + pyval list" where
  "extract_texts outp =
     (case py_get outp ''message'' (PDict []) of
        Inl e \<Rightarrow> Inl e
      | Inr message \<Rightarrow>
          (case py_get message ''content'' (PList []) of
             Inl e \<Rightarrow> Inl e
           | Inr parts \<Rightarrow>
               (case py_iter parts of
                  Inl e \<Rightarrow> Inl e
                | Inr ps \<Rightarrow> collect_texts ps [])))"

text \<open>Lines 53 to 65, what follows the call on a response \<open>resp\<close>.\<close>

definition converse_process :: "world \<Rightarrow> pyval \<Rightarrow> unit step" where
  "converse_process w resp =
     and_then (compute (py_get resp ''output'' (PDict []))) (\<lambda>outp.
       if \<not> truthy outp then print w (JsonDumpsStr resp)
       else
         and_then (compute (extract_texts outp)) (\<lambda>texts.
         and_then (print w (Lit ''Converse response:'')) (\<lambda>u.
           if texts \<noteq> [] then and_then (compute (join_nl texts)) (\<lambda>s. print w (Data s))
           else print w (JsonDumpsStr resp))))"

definition converse_try :: "world \<Rightarrow> string \<Rightarrow> string \<Rightarrow> unit step" where
  "converse_try w arn prompt =
     and_then (print w (Lit converse_notice)) (\<lambda>u.
     and_then (remote (converse_call arn prompt)
                 (converse w arn (messages prompt) inferenceConfig)) (\<lambda>resp.
     converse_process w resp))"

text \<open>The two handlers; \<open>True\<close> when the body reached its \<open>return\<close>.\<close>

definition converse_except :: "exn \<Rightarrow> event list" where
  "converse_except e =
     (if is_ClientError e
      then [eprint (Lit ''Converse attempt failed:''), eprint (StrExn e)]
      else [eprint (Lit ''Converse attempt error:''), eprint (ReprExn e)])"

definition converse_attempt :: "world \<Rightarrow> string \<Rightarrow> string \<Rightarrow> event list \<times> bool" where
  "converse_attempt w arn prompt =
     (case converse_try w arn prompt of
        (evs, Inr u) \<Rightarrow> (evs, True)
      | (evs, Inl e) \<Rightarrow> (evs @ converse_except e, False))"

subsection \<open>The raw-invocation attempt (lines 75 to 103)\<close>

text \<open>Lines 90 to 97, what follows the call on a response \<open>resp\<close>. A response without
  the key gives \<open>None\<close> for \<open>payload\<close>.\<close>

definition invoke_process :: "world \<Rightarrow> (string \<times> pybody) list \<Rightarrow> unit step" where
  "invoke_process w resp =
     (let payload = (case map_of resp ''body'' of None \<Rightarrow> Direct (Val PNone) | Some b \<Rightarrow> b)
      in and_then (compute (case payload of Stream r \<Rightarrow> r | Direct d \<Rightarrow> Inr d)) (\<lambda>data.
         and_then (print w (Lit ''InvokeModel response:'')) (\<lambda>u.
           case data of
             Bytes bs \<Rightarrow> and_then (compute (decode_utf8 bs)) (\<lambda>s. print w (Data s))
           | Val v \<Rightarrow> print w (py_str v))))"

definition invoke_try :: "world \<Rightarrow> string \<Rightarrow> string \<Rightarrow> unit step" where
  "invoke_try w arn prompt =
     and_then (print w (Lit invoke_notice)) (\<lambda>u.
     and_then (remote (invoke_call arn prompt)
                 (invoke_model w arn ''application/json'' ''application/json'' (body prompt)))
       (\<lambda>resp.
     invoke_process w resp))"

definition invoke_except :: "exn \<Rightarrow> event list" where
  "invoke_except e =
     (if is_ClientError e
      then [eprint (Lit ''InvokeModel attempt failed:''), eprint (StrExn e)]
      else [eprint (Lit ''InvokeModel attempt error:''), eprint (ReprExn e)])"

definition invoke_attempt :: "world \<Rightarrow> string \<Rightarrow> string \<Rightarrow> event list \<times> bool" where
  "invoke_attempt w arn prompt =
     (case invoke_try w arn prompt of
        (evs, Inr u) \<Rightarrow> (evs, True)
      | (evs, Inl e) \<Rightarrow> (evs @ invoke_except e, False))"

subsection \<open>Terminal diagnostics (lines 105 to 113)\<close>

text \<open>The dict of line 109.\<close>

definition identity_doc :: "pyval \<Rightarrow> string \<Rightarrow> string \<Rightarrow> pyval" where
  "identity_doc ident region arn =
     PDict [(''caller'', ident), (''region'', PStr region),
            (''inference_profile_arn'', PStr arn)]"

text \<open>The \<open>try\<close> of lines 106 to 111; its handler is \<open>except Exception: pass\<close>, so only
  the events remain. Creating the client and calling it are one step here.\<close>

definition identity_try :: "world \<Rightarrow> string \<Rightarrow> string \<Rightarrow> event list" where
  "identity_try w region arn =
     fst (and_then (remote GetCallerIdentity (get_caller_identity w)) (\<lambda>ident.
          and_then (compute (json_dumps (identity_doc ident region arn))) (\<lambda>t.
          print w t)))"

definition diagnostics :: "world \<Rightarrow> string \<Rightarrow> string \<Rightarrow> event list" where
  "diagnostics w region arn =
     eprint (Lit banner) # identity_try w region arn @ [eprint (Lit checklist)]"

subsection \<open>\<open>main\<close>\<close>

text \<open>Lines 24 to 26: the region, and the warning when none is configured.\<close>

definition resolve_region :: "string option \<Rightarrow> event list \<times> string" where
  "resolve_region region =
     (case region of
        None \<Rightarrow> ([eprint (Lit region_warning)], default_region)
      | Some r \<Rightarrow>
          (if r = [] then ([eprint (Lit region_warning)], default_region) else ([], r)))"

text \<open>Lines 45 to 113: the two attempts and the diagnostics.\<close>

definition attempts :: "world \<Rightarrow> string \<Rightarrow> string \<Rightarrow> string \<Rightarrow> event list \<times> outcome" where
  "attempts w arn prompt region =
     (case converse_attempt w arn prompt of
        (ev1, True) \<Rightarrow> (ev1, Returned)
      | (ev1, False) \<Rightarrow>
          (case invoke_attempt w arn prompt of
             (ev2, True) \<Rightarrow> (ev1 @ ev2, Returned)
           | (ev2, False) \<Rightarrow> (ev1 @ ev2 @ diagnostics w region arn, Exit 1)))"

text \<open>Lines 24 to 113, with the identifier \<open>arn\<close> known to be a non-empty string and
  \<open>region\<close> what line 16 gave. Lines 28 to 30 are in no \<open>try\<close>: what they raise leaves
  \<open>main\<close>, as does what the pre-check lets through.\<close>

definition run :: "world \<Rightarrow> string \<Rightarrow> string \<Rightarrow> string option \<Rightarrow> event list \<times> outcome" where
  "run w arn prompt region =
     (case resolve_region region of
        (ev0, region') \<Rightarrow>
          (case clients w region' of
             Some e \<Rightarrow> (ev0, Uncaught e)
           | None \<Rightarrow>
               (case verify_profile w arn of
                  (ev1, Some e) \<Rightarrow> (ev0 @ ev1, Uncaught e)
                | (ev1, None) \<Rightarrow>
                    (case attempts w arn prompt region' of
                       (ev2, out) \<Rightarrow> (ev0 @ ev1 @ ev2, out)))))"

definition resolve_arn :: "world \<Rightarrow> string option" where
  "resolve_arn w =
     py_or (getenv w ''BEDROCK_INFERENCE_PROFILE_ARN'') (getenv w ''INFERENCE_PROFILE_ARN'')"

definition missing_arn :: "event list \<times> outcome" where
  "missing_arn = (map (\<lambda>l. eprint (Lit l)) arn_error_lines, Exit 2)"

text \<open>Lines 14 to 22 and the rest: the identifier, the prompt, then the region lookup of
  line 16, which is in no \<open>try\<close> and comes before the test of the identifier.\<close>

definition main :: "world \<Rightarrow> event list \<times> outcome" where
  "main w =
     (let arn = resolve_arn w;
          prompt = getenv_default w ''PROMPT'' default_prompt
      in case region_name w of
           Inl e \<Rightarrow> ([], Uncaught e)
         | Inr region \<Rightarrow>
             (case arn of
                None \<Rightarrow> missing_arn
              | Some a \<Rightarrow> (if a = [] then missing_arn else run w a prompt region)))"

text \<open>The observations of a run.\<close>

definition trace :: "world \<Rightarrow> event list" where
  "trace w = fst (main w)"

definition result :: "world \<Rightarrow> outcome" where
  "result w = snd (main w)"

section \<open>Observations of a run\<close>

text \<open>The identifier and the prompt a run works with, and what the two invocation
  operations answer to the requests \<open>main\<close> builds from them.\<close>

definition arn_of :: "world \<Rightarrow> string" where
  "arn_of w = (case resolve_arn w of None \<Rightarrow> [] | Some a \<Rightarrow> a)"

definition prompt_of :: "world \<Rightarrow> string" where
  "prompt_of w = getenv_default w ''PROMPT'' default_prompt"

text \<open>What line 16 gave, and the region the clients are built for.\<close>

definition ambient_region :: "world \<Rightarrow> string option" where
  "ambient_region w = (case region_name w of Inl e \<Rightarrow> None | Inr r \<Rightarrow> r)"

definition region_of :: "world \<Rightarrow> string" where
  "region_of w = snd (resolve_region (ambient_region w))"

definition converse_result :: "world \<Rightarrow> exn + pyval" where
  "converse_result w = converse w (arn_of w) (messages (prompt_of w)) inferenceConfig"

definition invoke_result :: "world \<Rightarrow> exn + (string \<times> pybody) list" where
  "invoke_result w =
     invoke_model w (arn_of w) ''application/json'' ''application/json'' (body (prompt_of w))"

text \<open>The events before the first attempt: the region warning and the pre-check.\<close>

definition prelude :: "world \<Rightarrow> event list" where
  "prelude w = fst (resolve_region (ambient_region w)) @ fst (verify_profile w (arn_of w))"

text \<open>The run gets as far as the pre-check: the region lookup raised nothing, there is
  an identifier, and the session and its clients were built.\<close>

definition configured :: "world \<Rightarrow> bool" where
  "configured w =
     ((case region_name w of Inl e \<Rightarrow> False | Inr r \<Rightarrow> True) \<and>
      env_truthy (resolve_arn w) \<and> clients w (region_of w) = None)"

text \<open>The conversational call was made in this run.\<close>

definition converse_called :: "world \<Rightarrow> bool" where
  "converse_called w = (Call (converse_call (arn_of w) (prompt_of w)) \<in> set (trace w))"

text \<open>An attempt fails when an exception is raised in its \<open>try\<close> body, by the call or
  after it.\<close>

definition raised :: "event list \<times> (exn + unit) \<Rightarrow> bool" where
  "raised r = (case snd r of Inl e \<Rightarrow> True | Inr u \<Rightarrow> False)"

definition converse_fails :: "world \<Rightarrow> bool" where
  "converse_fails w = raised (converse_try w (arn_of w) (prompt_of w))"

definition invoke_fails :: "world \<Rightarrow> bool" where
  "invoke_fails w = raised (invoke_try w (arn_of w) (prompt_of w))"

text \<open>What a run does from the raw-invocation attempt on.\<close>

definition fallback :: "world \<Rightarrow> event list \<times> outcome" where
  "fallback w =
     (case invoke_attempt w (arn_of w) (prompt_of w) of
        (ev2, True) \<Rightarrow> (ev2, Returned)
      | (ev2, False) \<Rightarrow> (ev2 @ diagnostics w (region_of w) (arn_of w), Exit 1))"

text \<open>The first two events of each attempt: the notice and the call.\<close>

definition converse_start :: "world \<Rightarrow> event list" where
  "converse_start w =
     [Stdout (Lit converse_notice), Call (converse_call (arn_of w) (prompt_of w))]"

definition invoke_start :: "world \<Rightarrow> event list" where
  "invoke_start w =
     [Stdout (Lit invoke_notice), Call (invoke_call (arn_of w) (prompt_of w))]"

text \<open>The remote operations of a trace, in the order they were called.\<close>

datatype operation = Profile | Conversational | RawInvocation | Identity

fun operation_of :: "call \<Rightarrow> operation" where
  "operation_of (GetInferenceProfile a) = Profile"
| "operation_of (Converse a m c) = Conversational"
| "operation_of (InvokeModel a ct ac b) = RawInvocation"
| "operation_of GetCallerIdentity = Identity"

fun operations :: "event list \<Rightarrow> operation list" where
  "operations [] = []"
| "operations (Call c # evs) = operation_of c # operations evs"
| "operations (ev # evs) = operations evs"

section \<open>The words of the claims\<close>

text \<open>
  The definitions of this section follow the words of the specification, not the code;
  the theorems compare them with the program.

  The specification speaks of the text segments of the response's
  \<open>output.message.content\<close> list: the content blocks of a response, the text of a block, the segments
  joined with newlines, and the shape of a response that has such a list (each level a
  dict when it is there, the content a list of dicts, a text a \<open>str\<close>).
\<close>

definition content_blocks :: "pyval \<Rightarrow> pyval list" where
  "content_blocks resp =
     (case resp of
        PDict r \<Rightarrow>
          (case map_of r ''output'' of
             Some (PDict out) \<Rightarrow>
               (case map_of out ''message'' of
                  Some (PDict m) \<Rightarrow>
                    (case map_of m ''content'' of Some (PList ps) \<Rightarrow> ps | _ \<Rightarrow> [])
                | _ \<Rightarrow> [])
           | _ \<Rightarrow> [])
      | _ \<Rightarrow> [])"

fun block_text :: "pyval \<Rightarrow> string option" where
  "block_text (PDict kvs) = (case map_of kvs ''text'' of Some (PStr s) \<Rightarrow> Some s | _ \<Rightarrow> None)"
| "block_text v = None"

definition text_segments :: "pyval \<Rightarrow> string list" where
  "text_segments resp = List.map_filter block_text (content_blocks resp)"

fun joined :: "string list \<Rightarrow> string" where
  "joined [] = []"
| "joined [s] = s"
| "joined (s # t # ts) = s @ nl # joined (t # ts)"

fun text_block :: "pyval \<Rightarrow> bool" where
  "text_block (PDict kvs) =
     (case map_of kvs ''text'' of None \<Rightarrow> True | Some (PStr s) \<Rightarrow> True | Some v \<Rightarrow> False)"
| "text_block v = False"

definition well_shaped :: "pyval \<Rightarrow> bool" where
  "well_shaped resp =
     (case resp of
        PDict r \<Rightarrow>
          (case map_of r ''output'' of
             None \<Rightarrow> True
           | Some (PDict out) \<Rightarrow>
               (case map_of out ''message'' of
                  None \<Rightarrow> True
                | Some (PDict m) \<Rightarrow>
                    (case map_of m ''content'' of
                       None \<Rightarrow> True
                     | Some (PList ps) \<Rightarrow> list_all text_block ps
                     | Some v \<Rightarrow> False)
                | Some v \<Rightarrow> False)
           | Some v \<Rightarrow> False)
      | _ \<Rightarrow> False)"

text \<open>What a run shows of a response, by the specification.\<close>

definition shown :: "pyval \<Rightarrow> event" where
  "shown resp =
     Stdout (if text_segments resp = [] then JsonDumpsStr resp
             else Data (joined (text_segments resp)))"

text \<open>The bytes of a raw-invocation response: its \<open>body\<close>, read from the stream or
  already there.\<close>

definition payload_bytes :: "(string \<times> pybody) list \<Rightarrow> string option" where
  "payload_bytes resp =
     (case map_of resp ''body'' of
        Some (Direct (Bytes bs)) \<Rightarrow> Some bs
      | Some (Stream (Inr (Bytes bs))) \<Rightarrow> Some bs
      | _ \<Rightarrow> None)"

text \<open>
  The two kinds of content the specification tells apart. Warnings, errors and
  diagnostics: the fixed warning, error and diagnostic lines of the program, the
  renderings of exceptions, and the dump of the terminal diagnostics
  (\<open>json.dumps\<close> without \<open>default\<close>, which the program uses there only). Informational
  and success content: the fixed notices and headers, the dumps of a profile or of a
  response, and text that comes from a response.
\<close>

definition diagnostic_lines :: "string list" where
  "diagnostic_lines =
     arn_error_lines @
     [region_warning, profile_warning,
      ''Converse attempt failed:'', ''Converse attempt error:'',
      ''InvokeModel attempt failed:'', ''InvokeModel attempt error:'',
      banner, checklist]"

definition info_lines :: "string list" where
  "info_lines =
     [verified_line, skip_line, converse_notice, ''Converse response:'',
      invoke_notice, ''InvokeModel response:'']"

fun diagnostic_text :: "printed \<Rightarrow> bool" where
  "diagnostic_text (Lit s) = (s \<in> set diagnostic_lines)"
| "diagnostic_text (StrExn e) = True"
| "diagnostic_text (ReprExn e) = True"
| "diagnostic_text (JsonDumps v) = True"
| "diagnostic_text t = False"

fun informational :: "printed \<Rightarrow> bool" where
  "informational (Lit s) = (s \<in> set info_lines)"
| "informational (Data s) = True"
| "informational (JsonDumpsStr v) = True"
| "informational (StrOf v) = True"
| "informational t = False"

text \<open>An event is on the stream the specification gives its content.\<close>

fun as_specified :: "event \<Rightarrow> bool" where
  "as_specified (Stdout t) = informational t"
| "as_specified (Stderr t) = diagnostic_text t"
| "as_specified (Call c) = True"

text \<open>The dump of line 109 in a run of \<open>w\<close>.\<close>

definition identity_dump :: "world \<Rightarrow> printed \<Rightarrow> bool" where
  "identity_dump w t =
     (case get_caller_identity w of
        Inl e \<Rightarrow> False
      | Inr ident \<Rightarrow> t = JsonDumps (identity_doc ident (region_of w) (arn_of w)))"

text \<open>An event is on the stream the program gives it: as specified, but for the dump
  of line 109, which is on standard output.\<close>

fun placed :: "world \<Rightarrow> event \<Rightarrow> bool" where
  "placed w (Stdout t) = (informational t \<or> identity_dump w t)"
| "placed w (Stderr t) = (diagnostic_text t \<and> \<not> identity_dump w t)"
| "placed w (Call c) = True"

text \<open>The events from the failure banner on.\<close>

definition from_banner :: "event list \<Rightarrow> event list" where
  "from_banner evs = dropWhile (\<lambda>ev. ev \<noteq> Stderr (Lit banner)) evs"

section \<open>Example runs\<close>

definition example_arn :: string where
  "example_arn = ''arn:aws:bedrock:us-east-1:123456789012:inference-profile/my-profile''"

definition env_primary :: "string \<Rightarrow> string option" where
  "env_primary n = (if n = ''BEDROCK_INFERENCE_PROFILE_ARN'' then Some example_arn else None)"

definition env_empty_primary :: "string \<Rightarrow> string option" where
  "env_empty_primary n =
     (if n = ''BEDROCK_INFERENCE_PROFILE_ARN'' then Some []
      else if n = ''INFERENCE_PROFILE_ARN'' then Some example_arn
      else None)"

definition env_both_empty :: "string \<Rightarrow> string option" where
  "env_both_empty n =
     (if n = ''BEDROCK_INFERENCE_PROFILE_ARN'' then Some []
      else if n = ''INFERENCE_PROFILE_ARN'' then Some []
      else None)"

definition hello_response :: pyval where
  "hello_response =
     PDict [(''output'',
               PDict [(''message'',
                         PDict [(''role'', PStr ''assistant''),
                                (''content'', PList [PDict [(''text'', PStr ''Hello.'')]])])]),
            (''stopReason'', PStr ''end_turn'')]"

text \<open>The letter e with an acute accent, in UTF-8; a response whose one text segment
  is that letter; JSON bytes that hold it in a string.\<close>

definition e_acute :: string where
  "e_acute = [CHR 0xC3, CHR 0xA9]"

definition accent_response :: pyval where
  "accent_response =
     PDict [(''output'',
               PDict [(''message'',
                         PDict [(''role'', PStr ''assistant''),
                                (''content'', PList [PDict [(''text'', PStr e_acute)]])])])]"

definition accent_json :: string where
  "accent_json = CHR 0x22 # e_acute @ [CHR 0x22]"

definition example_identity :: pyval where
  "example_identity =
     PDict [(''UserId'', PStr ''AIDAEXAMPLE''), (''Account'', PStr ''123456789012'')]"

text \<open>The conversational call answers with one text segment; standard output is UTF-8.\<close>

definition w_hello :: world where
  "w_hello =
     \<lparr> getenv = env_primary,
       region_name = Inr (Some ''us-east-1''),
       clients = (\<lambda>r. None),
       has_get_inference_profile = False,
       get_inference_profile = (\<lambda>a. Inr (PDict [])),
       converse = (\<lambda>a m c. Inr hello_response),
       invoke_model = (\<lambda>a ct ac b. Inl (ClientError ''ValidationException'')),
       get_caller_identity = Inr example_identity,
       stdout_encodes = (\<lambda>t. True) \<rparr>"

text \<open>No identifier in the environment.\<close>

definition w_unset :: world where
  "w_unset = w_hello\<lparr>getenv := (\<lambda>n. None)\<rparr>"

text \<open>No identifier in the environment, and \<open>AWS_PROFILE\<close> names a profile that is not
  there, so that the region lookup of line 16 raises.\<close>

definition w_bad_profile :: world where
  "w_bad_profile = w_unset\<lparr>region_name := Inl (OtherError ''ProfileNotFound'')\<rparr>"

text \<open>The conversational call is rejected, the raw invocation answers with a stream of
  JSON bytes.\<close>

definition w_fallback :: world where
  "w_fallback =
     w_hello\<lparr>converse := (\<lambda>a m c. Inl (ClientError ''AccessDeniedException'')),
             invoke_model := (\<lambda>a ct ac b. Inr [(''body'', Stream (Inr (Bytes ''[128]'')))])\<rparr>"

text \<open>Both calls are rejected; the identity check answers.\<close>

definition w_exhausted :: world where
  "w_exhausted = w_hello\<lparr>converse := (\<lambda>a m c. Inl (ClientError ''AccessDeniedException''))\<rparr>"

text \<open>Both calls are rejected, and the identity check fails with a connection error.\<close>

definition w_silent :: world where
  "w_silent = w_exhausted\<lparr>get_caller_identity := Inl (OtherError ''EndpointConnectionError'')\<rparr>"

text \<open>All three of the later calls fail with an error that is not a \<open>ClientError\<close>.\<close>

definition w_unexpected :: world where
  "w_unexpected =
     w_hello\<lparr>converse := (\<lambda>a m c. Inl (OtherError ''ReadTimeoutError'')),
             invoke_model := (\<lambda>a ct ac b. Inl (OtherError ''ReadTimeoutError'')),
             get_caller_identity := Inl (OtherError ''ReadTimeoutError'')\<rparr>"

text \<open>Both calls answer, with an \<open>output\<close> that is a list and with bytes that are not
  UTF-8.\<close>

definition w_malformed :: world where
  "w_malformed =
     w_hello\<lparr>converse := (\<lambda>a m c. Inr (PDict [(''output'', PList [PStr ''Hello.''])])),
             invoke_model := (\<lambda>a ct ac b. Inr [(''body'', Direct (Bytes [CHR 0xFF, CHR 0xFE]))])\<rparr>"

text \<open>The pre-check is there and fails for want of credentials.\<close>

definition w_precheck :: world where
  "w_precheck =
     w_hello\<lparr>has_get_inference_profile := True,
             get_inference_profile := (\<lambda>a. Inl (OtherError ''NoCredentialsError''))\<rparr>"

text \<open>The first variable is the empty string and the second holds the identifier; both
  are the empty string; both are the empty string and the region lookup raises.\<close>

definition w_empty_primary :: world where
  "w_empty_primary = w_hello\<lparr>getenv := env_empty_primary\<rparr>"

definition w_both_empty :: world where
  "w_both_empty = w_hello\<lparr>getenv := env_both_empty\<rparr>"

definition w_both_empty_bad_profile :: world where
  "w_both_empty_bad_profile =
     w_both_empty\<lparr>region_name := Inl (OtherError ''ProfileNotFound'')\<rparr>"

text \<open>Standard output is ASCII only (\<open>PYTHONIOENCODING=ascii\<close>, or the C locale). The
  conversational call answers with the accented letter and the raw invocation is
  rejected; the conversational call is rejected and the raw invocation answers with the
  JSON bytes of the accented letter.\<close>

definition w_ascii_converse :: world where
  "w_ascii_converse =
     w_hello\<lparr>converse := (\<lambda>a m c. Inr accent_response), stdout_encodes := (\<lambda>t. False)\<rparr>"

definition w_ascii_invoke :: world where
  "w_ascii_invoke =
     w_hello\<lparr>converse := (\<lambda>a m c. Inl (ClientError ''AccessDeniedException'')),
             invoke_model := (\<lambda>a ct ac b. Inr [(''body'', Stream (Inr (Bytes accent_json)))]),
             stdout_encodes := (\<lambda>t. False)\<rparr>"

section \<open>Steps\<close>

lemma and_then_Inl: "and_then (evs, Inl e) f = (evs, Inl e)"
  by (simp add: and_then_def)

lemma and_then_Inr: "and_then (evs, Inr x) f = (evs @ fst (f x), snd (f x))"
  by (simp add: and_then_def split: prod.splits)

lemma and_then_compute:
  "and_then (compute (Inl e)) f = ([], Inl e)"
  "and_then (compute (Inr x)) f = f x"
  by (simp_all add: compute_def and_then_Inl and_then_Inr)

lemma and_then_remote:
  "and_then (remote c (Inl e)) f = ([Call c], Inl e)"
  "and_then (remote c (Inr x)) f = (Call c # fst (f x), snd (f x))"
  by (simp_all add: remote_def and_then_Inl and_then_Inr)

lemma print_ascii: "ascii_text t \<Longrightarrow> print w t = ([Stdout t], Inr ())"
  by (simp add: print_def print_raises_def)

lemma print_accepted: "\<not> print_raises w t \<Longrightarrow> print w t = ([Stdout t], Inr ())"
  by (simp add: print_def)

lemma print_refused: "print_raises w t \<Longrightarrow> print w t = ([], Inl UnicodeEncodeError)"
  by (simp add: print_def)

lemma and_then_print_ascii:
  "ascii_text t \<Longrightarrow> and_then (print w t) f = (Stdout t # fst (f ()), snd (f ()))"
  by (simp add: print_ascii and_then_Inr)

lemma ascii_lines:
  "ascii verified_line" "ascii skip_line" "ascii converse_notice" "ascii invoke_notice"
  "ascii ''Converse response:''" "ascii ''InvokeModel response:''"
  by (simp_all add: ascii_def verified_line_def skip_line_def converse_notice_def
      invoke_notice_def nl_def)

lemmas step_simps =
  and_then_Inl and_then_Inr and_then_compute and_then_remote and_then_print_ascii
  print_ascii ascii_lines ascii_text.simps

lemma print_events: "set (fst (print w t)) \<subseteq> {Stdout t}"
  by (simp add: print_def)

section \<open>The shape of a run\<close>

lemma main_region_error: "region_name w = Inl e \<Longrightarrow> main w = ([], Uncaught e)"
  by (simp add: main_def)

lemma main_missing:
  "region_name w = Inr r \<Longrightarrow> \<not> env_truthy (resolve_arn w) \<Longrightarrow> main w = missing_arn"
  by (cases "resolve_arn w") (simp_all add: main_def)

lemma main_run:
  "region_name w = Inr r \<Longrightarrow> env_truthy (resolve_arn w) \<Longrightarrow>
   main w = run w (arn_of w) (prompt_of w) r"
  by (cases "resolve_arn w") (simp_all add: main_def arn_of_def prompt_of_def)

lemma run_clients_error:
  "clients w (snd (resolve_region r)) = Some e \<Longrightarrow>
   run w a p r = (fst (resolve_region r), Uncaught e)"
  by (cases "resolve_region r") (simp add: run_def)

lemma run_uncaught:
  "clients w (snd (resolve_region r)) = None \<Longrightarrow> snd (verify_profile w a) = Some e \<Longrightarrow>
   run w a p r = (fst (resolve_region r) @ fst (verify_profile w a), Uncaught e)"
  by (cases "resolve_region r"; cases "verify_profile w a") (simp add: run_def)

lemma run_attempts:
  "clients w (snd (resolve_region r)) = None \<Longrightarrow> snd (verify_profile w a) = None \<Longrightarrow>
   run w a p r =
     (fst (resolve_region r) @ fst (verify_profile w a) @
      fst (attempts w a p (snd (resolve_region r))),
      snd (attempts w a p (snd (resolve_region r))))"
  by (cases "resolve_region r"; cases "verify_profile w a")
     (simp add: run_def split: prod.splits)

lemma attempts_converse_ok:
  "converse_try w a p = (evc, Inr u) \<Longrightarrow> attempts w a p r = (evc, Returned)"
  by (simp add: attempts_def converse_attempt_def)

lemma attempts_invoke_ok:
  "converse_try w a p = (evc, Inl e1) \<Longrightarrow> invoke_try w a p = (evi, Inr u) \<Longrightarrow>
   attempts w a p r = (evc @ converse_except e1 @ evi, Returned)"
  by (simp add: attempts_def converse_attempt_def invoke_attempt_def)

lemma attempts_exhausted:
  "converse_try w a p = (evc, Inl e1) \<Longrightarrow> invoke_try w a p = (evi, Inl e2) \<Longrightarrow>
   attempts w a p r =
     (evc @ converse_except e1 @ evi @ invoke_except e2 @ diagnostics w r a, Exit 1)"
  by (simp add: attempts_def converse_attempt_def invoke_attempt_def)

lemma configuredE:
  assumes "configured w"
  obtains r where "region_name w = Inr r" and "ambient_region w = r"
    and "env_truthy (resolve_arn w)" and "clients w (snd (resolve_region r)) = None"
  using assms
  by (cases "region_name w") (auto simp: configured_def region_of_def ambient_region_def)

lemma main_clients_error:
  assumes "region_name w = Inr r" and "env_truthy (resolve_arn w)"
    and "clients w (region_of w) = Some e"
  shows "main w = (fst (resolve_region r), Uncaught e)"
  using assms by (simp add: main_run run_clients_error region_of_def ambient_region_def)

lemma main_uncaught:
  assumes "configured w" and "snd (verify_profile w (arn_of w)) = Some e"
  shows "main w = (prelude w, Uncaught e)"
  using assms(1)
proof (rule configuredE)
  fix r
  assume "region_name w = Inr r" "ambient_region w = r" "env_truthy (resolve_arn w)"
    "clients w (snd (resolve_region r)) = None"
  with assms(2) show ?thesis
    by (simp add: main_run run_uncaught prelude_def)
qed

lemma main_attempts:
  assumes "configured w" and "snd (verify_profile w (arn_of w)) = None"
  shows "main w =
     (prelude w @ fst (attempts w (arn_of w) (prompt_of w) (region_of w)),
      snd (attempts w (arn_of w) (prompt_of w) (region_of w)))"
  using assms(1)
proof (rule configuredE)
  fix r
  assume "region_name w = Inr r" "ambient_region w = r" "env_truthy (resolve_arn w)"
    "clients w (snd (resolve_region r)) = None"
  with assms(2) show ?thesis
    by (simp add: main_run run_attempts prelude_def region_of_def)
qed

lemma main_converse_ok:
  "configured w \<Longrightarrow> snd (verify_profile w (arn_of w)) = None \<Longrightarrow>
   converse_try w (arn_of w) (prompt_of w) = (evc, Inr u) \<Longrightarrow>
   main w = (prelude w @ evc, Returned)"
  by (simp add: main_attempts attempts_converse_ok)

lemma main_invoke_ok:
  "configured w \<Longrightarrow> snd (verify_profile w (arn_of w)) = None \<Longrightarrow>
   converse_try w (arn_of w) (prompt_of w) = (evc, Inl e1) \<Longrightarrow>
   invoke_try w (arn_of w) (prompt_of w) = (evi, Inr u) \<Longrightarrow>
   main w = (prelude w @ evc @ converse_except e1 @ evi, Returned)"
  by (simp add: main_attempts attempts_invoke_ok)

lemma main_exhausted:
  "configured w \<Longrightarrow> snd (verify_profile w (arn_of w)) = None \<Longrightarrow>
   converse_try w (arn_of w) (prompt_of w) = (evc, Inl e1) \<Longrightarrow>
   invoke_try w (arn_of w) (prompt_of w) = (evi, Inl e2) \<Longrightarrow>
   main w =
     (prelude w @ evc @ converse_except e1 @ evi @ invoke_except e2 @
      diagnostics w (region_of w) (arn_of w), Exit 1)"
  by (simp add: main_attempts attempts_exhausted)

lemma converse_try_raise:
  "converse_result w = Inl e \<Longrightarrow>
   converse_try w (arn_of w) (prompt_of w) = (converse_start w, Inl e)"
  by (simp add: converse_try_def converse_result_def converse_start_def step_simps)

lemma converse_try_return:
  "converse_result w = Inr resp \<Longrightarrow>
   converse_try w (arn_of w) (prompt_of w) =
     (converse_start w @ fst (converse_process w resp), snd (converse_process w resp))"
  by (simp add: converse_try_def converse_result_def converse_start_def step_simps)

lemma invoke_try_raise:
  "invoke_result w = Inl e \<Longrightarrow>
   invoke_try w (arn_of w) (prompt_of w) = (invoke_start w, Inl e)"
  by (simp add: invoke_try_def invoke_result_def invoke_start_def step_simps)

lemma invoke_try_return:
  "invoke_result w = Inr resp \<Longrightarrow>
   invoke_try w (arn_of w) (prompt_of w) =
     (invoke_start w @ fst (invoke_process w resp), snd (invoke_process w resp))"
  by (simp add: invoke_try_def invoke_result_def invoke_start_def step_simps)

text \<open>The pre-check: its events and its end.\<close>

lemma verify_try_cases:
  "verify_try w a = ([Stdout (Lit skip_line)], Inr ()) \<or>
   (\<exists>e. verify_try w a = ([Call (GetInferenceProfile a)], Inl e)) \<or>
   verify_try w a = ([Call (GetInferenceProfile a), Stdout (Lit verified_line)],
      Inl AttributeError) \<or>
   (\<exists>d. verify_try w a = ([Call (GetInferenceProfile a), Stdout (Lit verified_line),
      Stdout (JsonDumpsStr d)], Inr ()))"
proof (cases "has_get_inference_profile w")
  case False
  then show ?thesis by (simp add: verify_try_def step_simps)
next
  case True
  show ?thesis
  proof (cases "get_inference_profile w a")
    case (Inl e)
    with True show ?thesis by (simp add: verify_try_def step_simps)
  next
    case (Inr prof)
    with True show ?thesis
      by (cases prof) (simp_all add: verify_try_def step_simps split: option.splits)
  qed
qed

lemma verify_profile_events:
  "ev \<in> set (fst (verify_profile w a)) \<Longrightarrow>
   ev = Call (GetInferenceProfile a) \<or> ev = Stdout (Lit verified_line) \<or>
   ev = Stdout (Lit skip_line) \<or> (\<exists>d. ev = Stdout (JsonDumpsStr d)) \<or>
   ev = Stderr (Lit profile_warning) \<or> (\<exists>e. ev = Stderr (StrExn e))"
  using verify_try_cases [of w a]
  by (auto simp: verify_profile_def split: if_splits)

lemma resolve_region_events:
  "ev \<in> set (fst (resolve_region r)) \<Longrightarrow> ev = Stderr (Lit region_warning)"
  by (auto simp: resolve_region_def split: option.splits if_splits)

lemma prelude_events:
  "ev \<in> set (prelude w) \<Longrightarrow>
   ev = Stderr (Lit region_warning) \<or>
   ev = Call (GetInferenceProfile (arn_of w)) \<or> ev = Stdout (Lit verified_line) \<or>
   ev = Stdout (Lit skip_line) \<or> (\<exists>d. ev = Stdout (JsonDumpsStr d)) \<or>
   ev = Stderr (Lit profile_warning) \<or> (\<exists>e. ev = Stderr (StrExn e))"
  unfolding prelude_def using resolve_region_events verify_profile_events by fastforce

lemma prelude_no_converse: "Call (converse_call a p) \<notin> set (prelude w)"
  by (auto dest!: prelude_events simp: converse_call_def)

lemma converse_try_has_call:
  "Call (converse_call (arn_of w) (prompt_of w)) \<in> set (fst (converse_try w (arn_of w) (prompt_of w)))"
  by (cases "converse_result w")
     (simp_all add: converse_try_raise converse_try_return converse_start_def)

lemma converse_try_in_trace:
  assumes "configured w" and "snd (verify_profile w (arn_of w)) = None"
  shows "set (fst (converse_try w (arn_of w) (prompt_of w))) \<subseteq> set (trace w)"
proof (cases "converse_try w (arn_of w) (prompt_of w)")
  case (Pair evc r)
  show ?thesis
  proof (cases r)
    case (Inr u)
    with Pair assms show ?thesis by (simp add: trace_def main_converse_ok)
  next
    case (Inl e1)
    show ?thesis
    proof (cases "invoke_try w (arn_of w) (prompt_of w)")
      case p2: (Pair evi r2)
      with Pair Inl assms show ?thesis
        by (cases r2) (auto simp: trace_def main_invoke_ok main_exhausted)
    qed
  qed
qed

lemma not_configured_no_converse:
  assumes "\<not> configured w"
  shows "Call (converse_call a p) \<notin> set (trace w)"
proof (cases "region_name w")
  case (Inl e)
  then show ?thesis by (simp add: trace_def main_region_error)
next
  case (Inr r)
  show ?thesis
  proof (cases "env_truthy (resolve_arn w)")
    case False
    with Inr show ?thesis
      by (auto simp: trace_def main_missing missing_arn_def)
  next
    case True
    with Inr assms obtain e where "clients w (region_of w) = Some e"
      by (auto simp: configured_def)
    with Inr True have "main w = (fst (resolve_region r), Uncaught e)"
      by (rule main_clients_error)
    then show ?thesis
      by (auto simp: trace_def dest: resolve_region_events)
  qed
qed

lemma converse_called_iff:
  "converse_called w \<longleftrightarrow> configured w \<and> snd (verify_profile w (arn_of w)) = None"
proof (cases "configured w")
  case False
  then show ?thesis
    by (simp add: converse_called_def not_configured_no_converse)
next
  case t: True
  show ?thesis
  proof (cases "snd (verify_profile w (arn_of w))")
    case (Some e)
    with t show ?thesis
      by (simp add: converse_called_def trace_def main_uncaught prelude_no_converse)
  next
    case None
    with t converse_try_has_call converse_try_in_trace show ?thesis
      by (auto simp: converse_called_def)
  qed
qed

text \<open>The three ways a run goes once the conversational call is made.\<close>

lemma called_converse_ok:
  "converse_called w \<Longrightarrow> converse_try w (arn_of w) (prompt_of w) = (evc, Inr u) \<Longrightarrow>
   main w = (prelude w @ evc, Returned)"
  by (simp add: converse_called_iff main_converse_ok)

lemma called_invoke_ok:
  "converse_called w \<Longrightarrow> converse_try w (arn_of w) (prompt_of w) = (evc, Inl e1) \<Longrightarrow>
   invoke_try w (arn_of w) (prompt_of w) = (evi, Inr u) \<Longrightarrow>
   main w = (prelude w @ evc @ converse_except e1 @ evi, Returned)"
  by (simp add: converse_called_iff main_invoke_ok)

lemma called_exhausted:
  "converse_called w \<Longrightarrow> converse_try w (arn_of w) (prompt_of w) = (evc, Inl e1) \<Longrightarrow>
   invoke_try w (arn_of w) (prompt_of w) = (evi, Inl e2) \<Longrightarrow>
   main w =
     (prelude w @ evc @ converse_except e1 @ evi @ invoke_except e2 @
      diagnostics w (region_of w) (arn_of w), Exit 1)"
  by (simp add: converse_called_iff main_exhausted)

section \<open>Evaluating the example runs\<close>

lemmas program_defs =
  main_def run_def attempts_def resolve_arn_def py_or_def getenv_default_def missing_arn_def
  resolve_region_def verify_profile_def verify_try_def
  converse_attempt_def converse_try_def converse_process_def converse_except_def extract_texts_def
  invoke_attempt_def invoke_try_def invoke_process_def invoke_except_def decode_utf8_def
  diagnostics_def identity_try_def identity_doc_def json_dumps_def
  and_then_def compute_def remote_def print_def print_raises_def ascii_def
  verified_line_def skip_line_def converse_notice_def invoke_notice_def nl_def

lemmas observation_defs =
  trace_def result_def arn_of_def prompt_of_def region_of_def ambient_region_def
  converse_result_def invoke_result_def converse_called_def converse_fails_def
  invoke_fails_def raised_def prelude_def converse_start_def invoke_start_def

lemmas example_defs =
  w_hello_def w_unset_def w_fallback_def w_exhausted_def w_silent_def w_unexpected_def
  w_malformed_def w_precheck_def w_empty_primary_def w_both_empty_def w_bad_profile_def
  w_both_empty_bad_profile_def w_ascii_converse_def w_ascii_invoke_def
  env_primary_def env_empty_primary_def env_both_empty_def
  hello_response_def accent_response_def accent_json_def e_acute_def
  example_identity_def example_arn_def

section \<open>Configuration\<close>

lemma resolve_arn_falsy:
  "\<not> env_truthy (getenv w ''BEDROCK_INFERENCE_PROFILE_ARN'') \<Longrightarrow>
   resolve_arn w = getenv w ''INFERENCE_PROFILE_ARN''"
  by (simp add: resolve_arn_def py_or_def)

lemma operations_missing_arn: "operations (fst missing_arn) = []"
  by (simp add: missing_arn_def arn_error_lines_def)

text \<open>
  Claim C2, as amended. When neither \<open>BEDROCK_INFERENCE_PROFILE_ARN\<close> nor
  \<open>INFERENCE_PROFILE_ARN\<close> gives an identifier (each is unset or empty), the run makes
  no remote call; and when the region lookup of line 16, which comes before the test
  of the identifier, raises nothing, the run ends with \<open>sys.exit(2)\<close> and all it
  emits is the three error lines on the diagnostic stream, the first of which names
  the variable \<open>BEDROCK_INFERENCE_PROFILE_ARN\<close>.
\<close>

theorem missing_identifier_exits_2:
  assumes "\<not> env_truthy (getenv w ''BEDROCK_INFERENCE_PROFILE_ARN'')"
    and "\<not> env_truthy (getenv w ''INFERENCE_PROFILE_ARN'')"
  shows "operations (trace w) = [] \<and>
         (region_name w = Inr r \<longrightarrow>
            result w = Exit 2 \<and> exit_code (result w) = 2 \<and>
            trace w = map (\<lambda>l. Stderr (Lit l)) arn_error_lines \<and>
            substring ''BEDROCK_INFERENCE_PROFILE_ARN'' (hd arn_error_lines))"
proof -
  from assms have n: "\<not> env_truthy (resolve_arn w)"
    by (simp add: resolve_arn_falsy)
  have s: "substring ''BEDROCK_INFERENCE_PROFILE_ARN'' (hd arn_error_lines)"
    by (simp add: arn_error_lines_def)
  show ?thesis
  proof (cases "region_name w")
    case (Inl e)
    then show ?thesis
      by (simp add: trace_def main_region_error)
  next
    case (Inr r')
    from main_missing [OF this n] have "main w = missing_arn" .
    with s Inr show ?thesis
      using operations_missing_arn by (simp add: result_def trace_def missing_arn_def)
  qed
qed

theorem missing_identifier_exits_2_witness:
  "getenv w_unset ''BEDROCK_INFERENCE_PROFILE_ARN'' = None \<and>
   getenv w_unset ''INFERENCE_PROFILE_ARN'' = None \<and>
   region_name w_unset = Inr (Some ''us-east-1'') \<and>
   exit_code (result w_unset) = 2 \<and>
   trace w_unset =
     [Stderr (Lit ''ERROR: BEDROCK_INFERENCE_PROFILE_ARN env var is not set.''),
      Stderr (Lit ''Set it, then re-run. Example:''),
      Stderr (Lit ''  export BEDROCK_INFERENCE_PROFILE_ARN=arn:aws:bedrock:us-east-1:123456789012:inference-profile/my-profile'')] \<and>
   operations (trace w_unset) = []"
proof -
  have a: "\<not> env_truthy (getenv w_unset ''BEDROCK_INFERENCE_PROFILE_ARN'')"
    by (simp add: w_unset_def w_hello_def)
  have b: "\<not> env_truthy (getenv w_unset ''INFERENCE_PROFILE_ARN'')"
    by (simp add: w_unset_def w_hello_def)
  have c: "region_name w_unset = Inr (Some ''us-east-1'')"
    by (simp add: w_unset_def w_hello_def)
  show ?thesis
    using missing_identifier_exits_2 [OF a b, of "Some ''us-east-1''"] c
    by (simp add: w_unset_def w_hello_def arn_error_lines_def)
qed

text \<open>
  Claim C2 as it is written fails when the region lookup raises: in the run
  \<open>w_bad_profile\<close> no variable gives an identifier and \<open>AWS_PROFILE\<close> names a profile that
  is not there, so that \<open>boto3.session.Session()\<close> of line 16 raises before the test of
  line 18; the run prints none of the error lines and ends with a traceback, status 1.
\<close>

theorem missing_identifier_bad_profile:
  "getenv w_bad_profile ''BEDROCK_INFERENCE_PROFILE_ARN'' = None \<and>
   getenv w_bad_profile ''INFERENCE_PROFILE_ARN'' = None \<and>
   trace w_bad_profile = [] \<and>
   result w_bad_profile = Uncaught (OtherError ''ProfileNotFound'') \<and>
   exit_code (result w_bad_profile) = 1"
  by (simp add: trace_def result_def main_def w_bad_profile_def w_unset_def w_hello_def)

text \<open>The program reads the environment through \<open>resolve_arn\<close> and \<open>getenv_default\<close>
  only, so two worlds that agree on the three variables and on the rest run alike.\<close>

lemma main_arn_of:
  "main w =
     (case region_name w of
        Inl e \<Rightarrow> ([], Uncaught e)
      | Inr r \<Rightarrow> (if arn_of w = [] then missing_arn else run w (arn_of w) (prompt_of w) r))"
  by (cases "resolve_arn w"; cases "region_name w")
     (simp_all add: main_def arn_of_def prompt_of_def)

lemma main_cong:
  assumes "arn_of w1 = arn_of w2"
    and "getenv w1 ''PROMPT'' = getenv w2 ''PROMPT''"
    and "region_name w1 = region_name w2"
    and "clients w1 = clients w2"
    and "has_get_inference_profile w1 = has_get_inference_profile w2"
    and "get_inference_profile w1 = get_inference_profile w2"
    and "converse w1 = converse w2"
    and "invoke_model w1 = invoke_model w2"
    and "get_caller_identity w1 = get_caller_identity w2"
    and "stdout_encodes w1 = stdout_encodes w2"
  shows "main w1 = main w2"
proof -
  have p: "print w1 t = print w2 t" for t
    using assms by (simp add: print_def print_raises_def)
  have v: "verify_profile w1 a = verify_profile w2 a" for a
    unfolding verify_profile_def verify_try_def p assms ..
  have c: "converse_attempt w1 a q = converse_attempt w2 a q" for a q
    unfolding converse_attempt_def converse_try_def converse_process_def p assms ..
  have i: "invoke_attempt w1 a q = invoke_attempt w2 a q" for a q
    unfolding invoke_attempt_def invoke_try_def invoke_process_def p assms ..
  have d: "diagnostics w1 r a = diagnostics w2 r a" for r a
    unfolding diagnostics_def identity_try_def p assms ..
  have t: "attempts w1 a q r = attempts w2 a q r" for a q r
    unfolding attempts_def c i d ..
  have r: "run w1 a q r = run w2 a q r" for a q r
    unfolding run_def v t assms ..
  have q: "prompt_of w1 = prompt_of w2"
    using assms by (simp add: prompt_of_def getenv_default_def)
  show ?thesis
    unfolding main_arn_of r assms(1) assms(3) q ..
qed

text \<open>
  Claim C9, as amended. A variable set to the empty string counts as absent. When
  \<open>BEDROCK_INFERENCE_PROFILE_ARN\<close> is the empty string, the identifier is whatever
  \<open>INFERENCE_PROFILE_ARN\<close> gives, and the run is the run with the first variable unset.
  When both are the empty string, the run is the run with both unset; it ends with
  \<open>sys.exit(2)\<close> when the region lookup of line 16 raises nothing.
\<close>

theorem empty_variable_is_absent:
  "(getenv w ''BEDROCK_INFERENCE_PROFILE_ARN'' = Some [] \<longrightarrow>
      resolve_arn w = getenv w ''INFERENCE_PROFILE_ARN'' \<and>
      main w = main (w\<lparr>getenv := (getenv w)(''BEDROCK_INFERENCE_PROFILE_ARN'' := None)\<rparr>)) \<and>
   (getenv w ''BEDROCK_INFERENCE_PROFILE_ARN'' = Some [] \<and>
    getenv w ''INFERENCE_PROFILE_ARN'' = Some [] \<longrightarrow>
      main w = main (w\<lparr>getenv := (getenv w)(''BEDROCK_INFERENCE_PROFILE_ARN'' := None,
                                           ''INFERENCE_PROFILE_ARN'' := None)\<rparr>) \<and>
      (region_name w = Inr r \<longrightarrow> result w = Exit 2 \<and> exit_code (result w) = 2))"
proof (intro conjI impI)
  assume e: "getenv w ''BEDROCK_INFERENCE_PROFILE_ARN'' = Some []"
  then show "resolve_arn w = getenv w ''INFERENCE_PROFILE_ARN''"
    by (simp add: resolve_arn_falsy)
  from e show "main w = main (w\<lparr>getenv := (getenv w)(''BEDROCK_INFERENCE_PROFILE_ARN'' := None)\<rparr>)"
    by (intro main_cong) (simp_all add: arn_of_def resolve_arn_def py_or_def)
next
  assume e: "getenv w ''BEDROCK_INFERENCE_PROFILE_ARN'' = Some [] \<and>
    getenv w ''INFERENCE_PROFILE_ARN'' = Some []"
  then show "main w = main (w\<lparr>getenv := (getenv w)(''BEDROCK_INFERENCE_PROFILE_ARN'' := None,
                                           ''INFERENCE_PROFILE_ARN'' := None)\<rparr>)"
    by (intro main_cong) (simp_all add: arn_of_def resolve_arn_def py_or_def)
  assume r: "region_name w = Inr r"
  from e have "\<not> env_truthy (resolve_arn w)"
    by (simp add: resolve_arn_def py_or_def)
  with r have "main w = missing_arn"
    by (rule main_missing)
  then show "result w = Exit 2" and "exit_code (result w) = 2"
    by (simp_all add: result_def missing_arn_def)
qed

theorem empty_variable_is_absent_witness:
  "getenv w_empty_primary ''BEDROCK_INFERENCE_PROFILE_ARN'' = Some [] \<and>
   resolve_arn w_empty_primary = Some example_arn \<and>
   result w_empty_primary = Returned \<and>
   getenv w_both_empty ''BEDROCK_INFERENCE_PROFILE_ARN'' = Some [] \<and>
   getenv w_both_empty ''INFERENCE_PROFILE_ARN'' = Some [] \<and>
   region_name w_both_empty = Inr (Some ''us-east-1'') \<and>
   main w_both_empty = main (w_both_empty\<lparr>getenv := (getenv w_both_empty)
       (''BEDROCK_INFERENCE_PROFILE_ARN'' := None, ''INFERENCE_PROFILE_ARN'' := None)\<rparr>) \<and>
   exit_code (result w_both_empty) = 2"
proof -
  have a: "getenv w_empty_primary ''BEDROCK_INFERENCE_PROFILE_ARN'' = Some []"
    by (simp add: w_empty_primary_def w_hello_def env_empty_primary_def)
  have b: "getenv w_both_empty ''BEDROCK_INFERENCE_PROFILE_ARN'' = Some [] \<and>
    getenv w_both_empty ''INFERENCE_PROFILE_ARN'' = Some []"
    by (simp add: w_both_empty_def w_hello_def env_both_empty_def)
  have c: "getenv w_empty_primary ''INFERENCE_PROFILE_ARN'' = Some example_arn"
    by (simp add: w_empty_primary_def w_hello_def env_empty_primary_def)
  have d: "result w_empty_primary = Returned"
    by (simp add: program_defs example_defs observation_defs)
  have f: "region_name w_both_empty = Inr (Some ''us-east-1'')"
    by (simp add: w_both_empty_def w_hello_def)
  note p = empty_variable_is_absent [of w_empty_primary, THEN conjunct1, rule_format, OF a]
  note q = empty_variable_is_absent [of w_both_empty "Some ''us-east-1''", THEN conjunct2,
      rule_format, OF b]
  from p c have "resolve_arn w_empty_primary = Some example_arn"
    by simp
  with a b d f q show ?thesis
    by blast
qed

text \<open>
  Claim C9 as it is written fails when the region lookup raises: in the run
  \<open>w_both_empty_bad_profile\<close> both variables are the empty string and line 16 raises
  before the test of the identifier, so that the run ends with a traceback and status 1,
  not 2 (as the run with both variables unset does).
\<close>

theorem empty_variables_bad_profile:
  "getenv w_both_empty_bad_profile ''BEDROCK_INFERENCE_PROFILE_ARN'' = Some [] \<and>
   getenv w_both_empty_bad_profile ''INFERENCE_PROFILE_ARN'' = Some [] \<and>
   result w_both_empty_bad_profile = Uncaught (OtherError ''ProfileNotFound'') \<and>
   exit_code (result w_both_empty_bad_profile) = 1"
  by (simp add: result_def main_def w_both_empty_bad_profile_def w_both_empty_def w_hello_def
      env_both_empty_def)

section \<open>The conversational attempt\<close>

lemma map_of_text_key: "(''text'' \<in> fst ` set kvs) = (map_of kvs ''text'' \<noteq> None)"
  by (simp add: map_of_eq_None_iff)

lemma collect_texts_shaped:
  "list_all text_block ps \<Longrightarrow>
   collect_texts ps acc = Inr (acc @ map PStr (List.map_filter block_text ps))"
proof (induction ps arbitrary: acc)
  case Nil
  then show ?case by (simp add: List.map_filter_simps)
next
  case (Cons p ps)
  from Cons.prems obtain kvs where p: "p = PDict kvs"
    by (cases p) simp_all
  from Cons.prems have rest: "list_all text_block ps"
    by simp
  show ?case
  proof (cases "map_of kvs ''text''")
    case None
    with p rest Cons.IH show ?thesis
      by (simp add: List.map_filter_simps map_of_text_key)
  next
    case (Some v)
    with Cons.prems p obtain s where "v = PStr s"
      by (cases v) simp_all
    with Some p rest Cons.IH show ?thesis
      by (simp add: List.map_filter_simps map_of_text_key)
  qed
qed

lemma join_nl_strs: "join_nl (map PStr ss) = Inr (joined ss)"
  by (induction ss rule: joined.induct) simp_all

text \<open>What the loop gathers from a content list of the expected shape.\<close>

lemma extract_texts_content:
  assumes "map_of out ''message'' = Some (PDict m)"
    and "map_of m ''content'' = Some (PList ps)" and "list_all text_block ps"
  shows "extract_texts (PDict out) = Inr (map PStr (List.map_filter block_text ps))"
  using assms by (simp add: extract_texts_def collect_texts_shaped)

lemma extract_texts_no_content:
  assumes "map_of out ''message'' = None \<or>
    (\<exists>m. map_of out ''message'' = Some (PDict m) \<and> map_of m ''content'' = None)"
  shows "extract_texts (PDict out) = Inr []"
  using assms by (auto simp: extract_texts_def)

lemma converse_process_no_output:
  "py_get resp ''output'' (PDict []) = Inr outp \<Longrightarrow> \<not> truthy outp \<Longrightarrow>
   converse_process w resp = ([Stdout (JsonDumpsStr resp)], Inr ())"
  by (simp add: converse_process_def step_simps)

lemma converse_process_texts:
  assumes "py_get resp ''output'' (PDict []) = Inr outp" and "truthy outp"
    and "extract_texts outp = Inr (map PStr ss)"
  shows "converse_process w resp =
     (if ss = [] then
        ([Stdout (Lit ''Converse response:''), Stdout (JsonDumpsStr resp)], Inr ())
      else (Stdout (Lit ''Converse response:'') # fst (print w (Data (joined ss))),
            snd (print w (Data (joined ss)))))"
  using assms by (simp add: converse_process_def join_nl_strs step_simps)

text \<open>A response of the expected shape: the text segments the loop gathers are the
  text segments of the specification.\<close>

lemma shaped_cases:
  assumes "well_shaped resp"
  obtains outp where "py_get resp ''output'' (PDict []) = Inr outp" and "\<not> truthy outp"
    and "text_segments resp = []"
  | outp where "py_get resp ''output'' (PDict []) = Inr outp" and "truthy outp"
    and "extract_texts outp = Inr (map PStr (text_segments resp))"
proof -
  from assms obtain r where r: "resp = PDict r"
    by (cases resp) (simp_all add: well_shaped_def)
  show ?thesis
  proof (cases "map_of r ''output''")
    case None
    with r that(1) [of "PDict []"] show ?thesis
      by (simp add: text_segments_def content_blocks_def List.map_filter_simps)
  next
    case (Some ov)
    with assms r obtain out where out: "ov = PDict out"
      by (cases ov) (simp_all add: well_shaped_def)
    have get: "py_get resp ''output'' (PDict []) = Inr (PDict out)"
      using r Some out by simp
    show ?thesis
    proof (cases "out = []")
      case True
      with r Some out that(1) [OF get] show ?thesis
        by (simp add: text_segments_def content_blocks_def List.map_filter_simps)
    next
      case False
      then have tr: "truthy (PDict out)" by simp
      have "extract_texts (PDict out) = Inr (map PStr (text_segments resp))"
      proof (cases "map_of out ''message''")
        case None
        with r Some out show ?thesis
          by (simp add: extract_texts_no_content text_segments_def content_blocks_def
              List.map_filter_simps)
      next
        case sm: (Some message)
        with assms r Some out obtain m where m: "message = PDict m"
          by (cases message) (simp_all add: well_shaped_def)
        show ?thesis
        proof (cases "map_of m ''content''")
          case None
          with r Some out sm m show ?thesis
            by (simp add: extract_texts_no_content text_segments_def content_blocks_def
                List.map_filter_simps)
        next
          case sc: (Some content)
          with assms r Some out sm m obtain ps where ps: "content = PList ps"
            by (cases content) (simp_all add: well_shaped_def)
          with assms r Some out sm m sc have "list_all text_block ps"
            by (simp add: well_shaped_def)
          with r Some out sm m sc ps show ?thesis
            by (simp add: extract_texts_content text_segments_def content_blocks_def)
        qed
      qed
      with that(2) [OF get tr] show ?thesis .
    qed
  qed
qed

lemma converse_process_shaped:
  assumes "well_shaped resp"
    and "\<not> print_raises w (Data (joined (text_segments resp)))"
  shows "\<exists>hdr. (hdr = [] \<or> hdr = [Stdout (Lit ''Converse response:'')]) \<and>
           converse_process w resp = (hdr @ [shown resp], Inr ())"
  using assms(1)
proof (cases rule: shaped_cases)
  case (1 outp)
  then have "converse_process w resp = ([] @ [shown resp], Inr ())"
    by (simp add: converse_process_no_output shown_def)
  then show ?thesis by blast
next
  case (2 outp)
  from converse_process_texts [OF 2(1) 2(2) 2(3)] assms(2)
  have "converse_process w resp = ([Stdout (Lit ''Converse response:'')] @ [shown resp], Inr ())"
    by (simp add: shown_def print_accepted)
  then show ?thesis by blast
qed

lemma converse_process_refused:
  assumes "well_shaped resp"
    and "print_raises w (Data (joined (text_segments resp)))"
  shows "converse_process w resp =
     ([Stdout (Lit ''Converse response:'')], Inl UnicodeEncodeError)"
  using assms(1)
proof (cases rule: shaped_cases)
  case (1 outp)
  with assms(2) show ?thesis
    by (simp add: print_raises_def ascii_def)
next
  case (2 outp)
  from assms(2) have "text_segments resp \<noteq> []"
    by (auto simp: print_raises_def ascii_def)
  with converse_process_texts [OF 2(1) 2(2) 2(3)] assms(2) show ?thesis
    by (simp add: print_refused)
qed

text \<open>
  Claim C3, as amended. When the conversational call is made and answers with a
  response of the expected shape, and standard output can encode the text to print,
  the program prints the text segments of the response's \<open>output.message.content\<close> list
  joined by newlines, or, when there is no text segment, the whole response as
  formatted JSON; that is the last thing the run does, and \<open>main\<close> returns (exit code
  0). Between the call and this print there is at most the line \<open>Converse response:\<close>.
\<close>

theorem converse_success_prints_text:
  assumes "converse_called w" and "converse_result w = Inr resp" and "well_shaped resp"
    and "\<not> print_raises w (Data (joined (text_segments resp)))"
  shows "result w = Returned \<and> exit_code (result w) = 0 \<and>
         (\<exists>hdr. (hdr = [] \<or> hdr = [Stdout (Lit ''Converse response:'')]) \<and>
            trace w = prelude w @ converse_start w @ hdr @
              [Stdout (if text_segments resp = [] then JsonDumpsStr resp
                       else Data (joined (text_segments resp)))])"
proof -
  from converse_process_shaped [OF assms(3,4)] obtain hdr
    where hdr: "hdr = [] \<or> hdr = [Stdout (Lit ''Converse response:'')]"
      and cp: "converse_process w resp = (hdr @ [shown resp], Inr ())" by blast
  from assms(2) cp
  have "converse_try w (arn_of w) (prompt_of w) = (converse_start w @ hdr @ [shown resp], Inr ())"
    by (simp add: converse_try_return)
  from called_converse_ok [OF assms(1) this]
  have "main w = (prelude w @ converse_start w @ hdr @ [shown resp], Returned)" .
  with hdr show ?thesis
    by (auto simp: result_def trace_def shown_def)
qed

theorem converse_success_prints_text_witness:
  "converse_called w_hello \<and> converse_result w_hello = Inr hello_response \<and>
   well_shaped hello_response \<and> text_segments hello_response = [''Hello.''] \<and>
   \<not> print_raises w_hello (Data ''Hello.'') \<and>
   result w_hello = Returned \<and>
   trace w_hello =
     [Stdout (Lit skip_line)] @ converse_start w_hello @
     [Stdout (Lit ''Converse response:''), Stdout (Data ''Hello.'')]"
proof -
  have a: "converse_called w_hello"
    by (simp add: program_defs example_defs observation_defs converse_call_def)
  have b: "converse_result w_hello = Inr hello_response"
    by (simp add: converse_result_def w_hello_def)
  have c: "well_shaped hello_response"
    by (simp add: well_shaped_def hello_response_def)
  have d: "text_segments hello_response = [''Hello.'']"
    by (simp add: text_segments_def content_blocks_def hello_response_def List.map_filter_simps)
  have p: "\<not> print_raises w_hello (Data ''Hello.'')"
    by (simp add: print_raises_def w_hello_def)
  then have p': "\<not> print_raises w_hello (Data (joined (text_segments hello_response)))"
    by (simp add: d)
  have e: "prelude w_hello = [Stdout (Lit skip_line)]"
    by (simp add: prelude_def resolve_region_def verify_profile_def verify_try_def w_hello_def
        ambient_region_def step_simps)
  from converse_success_prints_text [OF a b c p'] d e
  have "result w_hello = Returned" and
    "\<exists>hdr. (hdr = [] \<or> hdr = [Stdout (Lit ''Converse response:'')]) \<and>
      trace w_hello =
        [Stdout (Lit skip_line)] @ converse_start w_hello @ hdr @ [Stdout (Data ''Hello.'')]"
    by simp_all
  moreover have "trace w_hello \<noteq>
        [Stdout (Lit skip_line)] @ converse_start w_hello @ [] @ [Stdout (Data ''Hello.'')]"
    by (simp add: program_defs example_defs observation_defs)
  ultimately show ?thesis
    using a b c d p by auto
qed

text \<open>
  Claim C3 as it is written fails when standard output cannot encode the text: the
  \<open>print\<close> of line 64 is inside the \<open>try\<close>. In the run \<open>w_ascii_converse\<close> standard output is
  ASCII only and the conversational call answers with one text segment, an accented
  letter; \<open>print\<close> raises \<open>UnicodeEncodeError\<close>, the generic handler takes it, the text is
  not printed, the raw invocation is called, and the run ends with \<open>sys.exit(1)\<close>.
\<close>

theorem converse_success_not_printed:
  "converse_called w_ascii_converse \<and>
   converse_result w_ascii_converse = Inr accent_response \<and>
   well_shaped accent_response \<and> text_segments accent_response = [e_acute] \<and>
   Stdout (Data e_acute) \<notin> set (trace w_ascii_converse) \<and>
   Stderr (ReprExn UnicodeEncodeError) \<in> set (trace w_ascii_converse) \<and>
   operations (trace w_ascii_converse) = [Conversational, RawInvocation, Identity] \<and>
   result w_ascii_converse = Exit 1 \<and> exit_code (result w_ascii_converse) = 1"
proof -
  have a: "converse_called w_ascii_converse"
    by (simp add: program_defs example_defs observation_defs converse_call_def)
  have b: "converse_result w_ascii_converse = Inr accent_response"
    by (simp add: converse_result_def w_ascii_converse_def w_hello_def)
  have c: "well_shaped accent_response"
    by (simp add: well_shaped_def accent_response_def)
  have d: "text_segments accent_response = [e_acute]"
    by (simp add: text_segments_def content_blocks_def accent_response_def List.map_filter_simps)
  have e: "Stdout (Data e_acute) \<notin> set (trace w_ascii_converse)"
    by (simp add: program_defs example_defs observation_defs)
  have f: "Stderr (ReprExn UnicodeEncodeError) \<in> set (trace w_ascii_converse)"
    by (simp add: program_defs example_defs observation_defs)
  have g: "operations (trace w_ascii_converse) = [Conversational, RawInvocation, Identity]"
    by (simp add: program_defs example_defs observation_defs converse_call_def invoke_call_def)
  have h: "result w_ascii_converse = Exit 1"
    by (simp add: program_defs example_defs observation_defs)
  from a b c d e f g h show ?thesis
    by simp
qed

section \<open>The fallback and the exhaustion of both attempts\<close>

lemma operations_append: "operations (xs @ ys) = operations xs @ operations ys"
  by (induction xs rule: operations.induct) simp_all

lemma operations_stdout: "(\<And>ev. ev \<in> set evs \<Longrightarrow> \<exists>t. ev = Stdout t) \<Longrightarrow> operations evs = []"
proof (induction evs)
  case Nil
  then show ?case by simp
next
  case (Cons ev evs)
  from Cons.prems [of ev] obtain t where "ev = Stdout t" by auto
  with Cons show ?case by simp
qed

lemma prelude_stderr:
  "Stderr t \<in> set (prelude w) \<Longrightarrow>
   t = Lit region_warning \<or> t = Lit profile_warning \<or> (\<exists>e. t = StrExn e)"
  by (auto dest!: prelude_events)

lemma operations_verify_profile:
  "operations (fst (verify_profile w a)) = [] \<or> operations (fst (verify_profile w a)) = [Profile]"
  using verify_try_cases [of w a]
  by (auto simp: verify_profile_def operations_append split: if_splits)

lemma operations_resolve_region: "operations (fst (resolve_region r)) = []"
  by (simp add: resolve_region_def split: option.splits)

lemma operations_prelude: "operations (prelude w) = [] \<or> operations (prelude w) = [Profile]"
  using operations_verify_profile [of w "arn_of w"]
  by (simp add: prelude_def operations_append operations_resolve_region)

lemma banner_not_in_prelude: "Stderr (Lit banner) \<notin> set (prelude w)"
  by (auto dest!: prelude_stderr simp: banner_def region_warning_def profile_warning_def nl_def)

lemma checklist_not_in_prelude: "Stderr (Lit checklist) \<notin> set (prelude w)"
  by (auto dest!: prelude_stderr simp: checklist_def region_warning_def profile_warning_def)

lemma invoke_process_data:
  "invoke_process w resp =
     (case (case map_of resp ''body'' of None \<Rightarrow> Inr (Val PNone)
            | Some (Stream r) \<Rightarrow> r | Some (Direct d) \<Rightarrow> Inr d) of
        Inl e \<Rightarrow> ([], Inl e)
      | Inr (Bytes bs) \<Rightarrow>
          (if utf8_valid bs
           then (Stdout (Lit ''InvokeModel response:'') # fst (print w (Data bs)),
                 snd (print w (Data bs)))
           else ([Stdout (Lit ''InvokeModel response:'')], Inl UnicodeDecodeError))
      | Inr (Val v) \<Rightarrow>
          (Stdout (Lit ''InvokeModel response:'') # fst (print w (py_str v)),
           snd (print w (py_str v))))"
  by (simp add: invoke_process_def decode_utf8_def and_then_compute and_then_print_ascii
      ascii_lines split: option.splits pybody.splits sum.splits pydata.splits)

lemma invoke_process_bytes:
  "payload_bytes resp = Some bs \<Longrightarrow> utf8_valid bs \<Longrightarrow> \<not> print_raises w (Data bs) \<Longrightarrow>
   invoke_process w resp = ([Stdout (Lit ''InvokeModel response:''), Stdout (Data bs)], Inr ())"
  by (auto simp: payload_bytes_def invoke_process_data print_accepted
      split: option.splits pybody.splits pydata.splits sum.splits)

text \<open>
  Claim C4, as amended. In a run where the conversational call is made and rejected
  with a \<open>ClientError\<close>, the raw invocation answers with a body of bytes (read from a
  stream or already there) that are well-formed UTF-8, and standard output can encode
  the decoded text, \<open>main\<close> returns (exit code 0), the last thing printed is the decoded
  payload, unchanged, on standard output, and neither the failure banner nor the
  checklist is printed, nor is the identity check called.
\<close>

theorem fallback_prints_payload:
  assumes "converse_called w" and "converse_result w = Inl (ClientError m)"
    and "invoke_result w = Inr resp" and "payload_bytes resp = Some bs" and "utf8_valid bs"
    and "\<not> print_raises w (Data bs)"
  shows "result w = Returned \<and> exit_code (result w) = 0 \<and>
         trace w = prelude w @ converse_start w @
           [Stderr (Lit ''Converse attempt failed:''), Stderr (StrExn (ClientError m))] @
           invoke_start w @
           [Stdout (Lit ''InvokeModel response:''), Stdout (Data bs)] \<and>
         Stderr (Lit banner) \<notin> set (trace w) \<and>
         Stderr (Lit checklist) \<notin> set (trace w) \<and>
         Identity \<notin> set (operations (trace w))"
proof -
  have c: "converse_try w (arn_of w) (prompt_of w) = (converse_start w, Inl (ClientError m))"
    using assms(2) by (rule converse_try_raise)
  have i: "invoke_try w (arn_of w) (prompt_of w) =
      (invoke_start w @ [Stdout (Lit ''InvokeModel response:''), Stdout (Data bs)], Inr ())"
    using assms(3-6) by (simp add: invoke_try_return invoke_process_bytes)
  from called_invoke_ok [OF assms(1) c i]
  have m: "main w = (prelude w @ converse_start w @ converse_except (ClientError m) @
      invoke_start w @ [Stdout (Lit ''InvokeModel response:''), Stdout (Data bs)], Returned)" .
  then have t: "trace w = prelude w @ converse_start w @
           [Stderr (Lit ''Converse attempt failed:''), Stderr (StrExn (ClientError m))] @
           invoke_start w @
           [Stdout (Lit ''InvokeModel response:''), Stdout (Data bs)]"
    by (simp add: trace_def converse_except_def)
  have b: "Stderr (Lit banner) \<notin> set (trace w)"
    using banner_not_in_prelude [of w]
    by (simp add: t converse_start_def invoke_start_def banner_def nl_def)
  have k: "Stderr (Lit checklist) \<notin> set (trace w)"
    using checklist_not_in_prelude [of w]
    by (simp add: t converse_start_def invoke_start_def checklist_def)
  have o: "Identity \<notin> set (operations (trace w))"
    using operations_prelude [of w]
    by (auto simp: t operations_append converse_start_def invoke_start_def
        converse_call_def invoke_call_def)
  from m t b k o show ?thesis
    by (simp add: result_def)
qed

theorem fallback_prints_payload_witness:
  "converse_called w_fallback \<and>
   converse_result w_fallback = Inl (ClientError ''AccessDeniedException'') \<and>
   invoke_result w_fallback = Inr [(''body'', Stream (Inr (Bytes ''[128]'')))] \<and>
   utf8_valid ''[128]'' \<and> \<not> print_raises w_fallback (Data ''[128]'') \<and>
   exit_code (result w_fallback) = 0 \<and>
   last (trace w_fallback) = Stdout (Data ''[128]'') \<and>
   Stderr (Lit banner) \<notin> set (trace w_fallback)"
proof -
  have a: "converse_called w_fallback"
    by (simp add: program_defs example_defs observation_defs converse_call_def)
  have b: "converse_result w_fallback = Inl (ClientError ''AccessDeniedException'')"
    by (simp add: converse_result_def w_fallback_def w_hello_def)
  have c: "invoke_result w_fallback = Inr [(''body'', Stream (Inr (Bytes ''[128]'')))]"
    by (simp add: invoke_result_def w_fallback_def w_hello_def)
  have d: "payload_bytes [(''body'', Stream (Inr (Bytes ''[128]'')))] = Some ''[128]''"
    by (simp add: payload_bytes_def)
  have e: "utf8_valid ''[128]''"
    by (simp add: byte_in_def)
  have p: "\<not> print_raises w_fallback (Data ''[128]'')"
    by (simp add: print_raises_def w_fallback_def w_hello_def)
  note r = fallback_prints_payload [OF a b c d e p]
  from r have t: "trace w_fallback = prelude w_fallback @ converse_start w_fallback @
      [Stderr (Lit ''Converse attempt failed:''),
       Stderr (StrExn (ClientError ''AccessDeniedException''))] @
      invoke_start w_fallback @
      [Stdout (Lit ''InvokeModel response:''), Stdout (Data ''[128]'')]"
    by blast
  have l: "last (trace w_fallback) = Stdout (Data ''[128]'')"
    unfolding t by simp
  from r a b c e p l show ?thesis
    by blast
qed

text \<open>
  Claim C4 as it is written fails when standard output cannot encode the payload: the
  \<open>print\<close> of line 96 is inside the \<open>try\<close>. In the run \<open>w_ascii_invoke\<close> standard output is
  ASCII only, the conversational call is rejected, and the raw invocation answers with
  well-formed UTF-8 bytes, a JSON string holding an accented letter; \<open>print\<close> raises
  \<open>UnicodeEncodeError\<close>, the payload is not printed, the banner is, and the run ends with
  \<open>sys.exit(1)\<close>.
\<close>

theorem fallback_payload_not_printed:
  "converse_called w_ascii_invoke \<and>
   converse_result w_ascii_invoke = Inl (ClientError ''AccessDeniedException'') \<and>
   invoke_result w_ascii_invoke = Inr [(''body'', Stream (Inr (Bytes accent_json)))] \<and>
   payload_bytes [(''body'', Stream (Inr (Bytes accent_json)))] = Some accent_json \<and>
   utf8_valid accent_json \<and>
   Stdout (Data accent_json) \<notin> set (trace w_ascii_invoke) \<and>
   Stderr (Lit banner) \<in> set (trace w_ascii_invoke) \<and>
   result w_ascii_invoke = Exit 1 \<and> exit_code (result w_ascii_invoke) = 1"
proof -
  have a: "converse_called w_ascii_invoke"
    by (simp add: program_defs example_defs observation_defs converse_call_def)
  have b: "converse_result w_ascii_invoke = Inl (ClientError ''AccessDeniedException'')"
    by (simp add: converse_result_def w_ascii_invoke_def w_hello_def)
  have c: "invoke_result w_ascii_invoke = Inr [(''body'', Stream (Inr (Bytes accent_json)))]"
    by (simp add: invoke_result_def w_ascii_invoke_def w_hello_def)
  have d: "payload_bytes [(''body'', Stream (Inr (Bytes accent_json)))] = Some accent_json"
    by (simp add: payload_bytes_def)
  have e: "utf8_valid accent_json"
    by (simp add: accent_json_def e_acute_def byte_in_def is_cont_def)
  have f: "Stdout (Data accent_json) \<notin> set (trace w_ascii_invoke)"
    by (simp add: program_defs example_defs observation_defs byte_in_def is_cont_def)
  have g: "Stderr (Lit banner) \<in> set (trace w_ascii_invoke)"
    by (simp add: program_defs example_defs observation_defs byte_in_def is_cont_def)
  have h: "result w_ascii_invoke = Exit 1"
    by (simp add: program_defs example_defs observation_defs byte_in_def is_cont_def)
  from a b c d e f g h show ?thesis
    by simp
qed

lemma raisedE:
  assumes "raised r"
  obtains evs e where "r = (evs, Inl e)"
  using assms by (cases r; cases "snd r") (auto simp: raised_def)

text \<open>
  Claim C5. In a run where the conversational call is made and both attempts fail (an
  exception is raised in each \<open>try\<close> body), the run ends with \<open>sys.exit(1)\<close>; the failure
  banner is printed, and the last thing printed is the fixed checklist, on the
  diagnostic stream. The checklist names the ARN and region, the IAM permissions, the
  API support of the routed model and the network egress.
\<close>

theorem exhaustion_prints_checklist:
  assumes "converse_called w" and "converse_fails w" and "invoke_fails w"
  shows "result w = Exit 1 \<and> exit_code (result w) = 1 \<and>
         Stderr (Lit banner) \<in> set (trace w) \<and>
         last (trace w) = Stderr (Lit checklist) \<and>
         substring ''Ensure the ARN is correct and in this region'' checklist \<and>
         substring ''Confirm IAM permissions'' checklist \<and>
         substring ''supports the chosen API'' checklist \<and>
         substring ''VPC endpoints or network egress'' checklist"
proof -
  from assms(2) obtain evc e1
    where c: "converse_try w (arn_of w) (prompt_of w) = (evc, Inl e1)"
    unfolding converse_fails_def by (rule raisedE)
  from assms(3) obtain evi e2
    where i: "invoke_try w (arn_of w) (prompt_of w) = (evi, Inl e2)"
    unfolding invoke_fails_def by (rule raisedE)
  from called_exhausted [OF assms(1) c i]
  have m: "main w = (prelude w @ evc @ converse_except e1 @ evi @ invoke_except e2 @
      diagnostics w (region_of w) (arn_of w), Exit 1)" .
  then have r: "result w = Exit 1"
    by (simp add: result_def)
  from m have b: "Stderr (Lit banner) \<in> set (trace w)"
    by (simp add: trace_def diagnostics_def)
  from m have l: "last (trace w) = Stderr (Lit checklist)"
    by (simp add: trace_def diagnostics_def)
  have s1: "substring ''Ensure the ARN is correct and in this region'' checklist"
    by (simp add: checklist_def nl_def)
  have s2: "substring ''Confirm IAM permissions'' checklist"
    by (simp add: checklist_def nl_def)
  have s3: "substring ''supports the chosen API'' checklist"
    by (simp add: checklist_def nl_def)
  have s4: "substring ''VPC endpoints or network egress'' checklist"
    by (simp add: checklist_def nl_def)
  from r b l s1 s2 s3 s4 show ?thesis
    by simp
qed

theorem exhaustion_prints_checklist_witness:
  "converse_called w_exhausted \<and> converse_fails w_exhausted \<and> invoke_fails w_exhausted \<and>
   exit_code (result w_exhausted) = 1 \<and>
   last (trace w_exhausted) = Stderr (Lit checklist)"
proof -
  have a: "converse_called w_exhausted"
    by (simp add: program_defs example_defs observation_defs converse_call_def)
  have b: "converse_result w_exhausted = Inl (ClientError ''AccessDeniedException'')"
    by (simp add: converse_result_def w_exhausted_def w_hello_def)
  then have b': "converse_fails w_exhausted"
    by (simp add: converse_fails_def raised_def converse_try_raise)
  have c: "invoke_result w_exhausted = Inl (ClientError ''ValidationException'')"
    by (simp add: invoke_result_def w_exhausted_def w_hello_def)
  then have c': "invoke_fails w_exhausted"
    by (simp add: invoke_fails_def raised_def invoke_try_raise)
  from exhaustion_prints_checklist [OF a b' c'] a b' c' show ?thesis
    by blast
qed

section \<open>The order of the steps\<close>

text \<open>The seven ways a run can go.\<close>

lemma main_cases
  [case_names region_error missing clients_error uncaught converse_ok invoke_ok exhausted]:
  obtains e where "\<not> converse_called w" and "main w = ([], Uncaught e)"
  | "\<not> converse_called w" and "main w = missing_arn"
  | e where "\<not> converse_called w"
      and "main w = (fst (resolve_region (ambient_region w)), Uncaught e)"
  | e where "\<not> converse_called w" and "snd (verify_profile w (arn_of w)) = Some e"
      and "main w = (prelude w, Uncaught e)"
  | evc where "converse_called w"
      and "converse_try w (arn_of w) (prompt_of w) = (evc, Inr ())"
      and "main w = (prelude w @ evc, Returned)"
  | evc e1 evi where "converse_called w"
      and "converse_try w (arn_of w) (prompt_of w) = (evc, Inl e1)"
      and "invoke_try w (arn_of w) (prompt_of w) = (evi, Inr ())"
      and "main w = (prelude w @ evc @ converse_except e1 @ evi, Returned)"
  | evc e1 evi e2 where "converse_called w"
      and "converse_try w (arn_of w) (prompt_of w) = (evc, Inl e1)"
      and "invoke_try w (arn_of w) (prompt_of w) = (evi, Inl e2)"
      and "main w = (prelude w @ evc @ converse_except e1 @ evi @ invoke_except e2 @
             diagnostics w (region_of w) (arn_of w), Exit 1)"
proof (cases "configured w")
  case False
  then have n: "\<not> converse_called w"
    by (simp add: converse_called_iff)
  show ?thesis
  proof (cases "region_name w")
    case (Inl e)
    with n that(1) show ?thesis by (simp add: main_region_error)
  next
    case (Inr r)
    show ?thesis
    proof (cases "env_truthy (resolve_arn w)")
      case f: False
      from main_missing [OF Inr f] n that(2) show ?thesis by simp
    next
      case True
      with Inr False obtain e where "clients w (region_of w) = Some e"
        by (auto simp: configured_def)
      from main_clients_error [OF Inr True this] Inr n that(3) show ?thesis
        by (simp add: ambient_region_def)
    qed
  qed
next
  case t: True
  show ?thesis
  proof (cases "snd (verify_profile w (arn_of w))")
    case (Some e)
    with t that(4) show ?thesis
      by (simp add: main_uncaught converse_called_iff)
  next
    case None
    with t have called: "converse_called w"
      by (simp add: converse_called_iff)
    obtain evc rc where c: "converse_try w (arn_of w) (prompt_of w) = (evc, rc)"
      by (cases "converse_try w (arn_of w) (prompt_of w)")
    obtain evi ri where i: "invoke_try w (arn_of w) (prompt_of w) = (evi, ri)"
      by (cases "invoke_try w (arn_of w) (prompt_of w)")
    show ?thesis
    proof (cases rc)
      case (Inr u)
      with called c that(5) show ?thesis
        by (simp add: called_converse_ok)
    next
      case e1: (Inl e1)
      show ?thesis
      proof (cases ri)
        case (Inr u)
        with called c i e1 that(6) show ?thesis
          by (simp add: called_invoke_ok)
      next
        case (Inl e2)
        with called c i e1 that(7) show ?thesis
          by (simp add: called_exhausted)
      qed
    qed
  qed
qed

text \<open>What the bodies of the two attempts emit after the call.\<close>

lemma converse_process_events:
  "ev \<in> set (fst (converse_process w resp)) \<Longrightarrow>
   ev = Stdout (Lit ''Converse response:'') \<or> ev = Stdout (JsonDumpsStr resp) \<or>
   (\<exists>s. ev = Stdout (Data s))"
  by (auto simp: converse_process_def and_then_def compute_def print_def
      split: sum.splits prod.splits if_splits)

lemma invoke_process_events:
  "ev \<in> set (fst (invoke_process w resp)) \<Longrightarrow>
   ev = Stdout (Lit ''InvokeModel response:'') \<or>
   (\<exists>s. ev = Stdout (Data s)) \<or> (\<exists>v. ev = Stdout (StrOf v))"
proof -
  have "py_str v = StrOf v \<or> (\<exists>s. py_str v = Data s)" for v
    by (induction v rule: py_str.induct) simp_all
  then show "ev \<in> set (fst (invoke_process w resp)) \<Longrightarrow> ?thesis"
    by (auto simp: invoke_process_data print_def
        split: sum.splits option.splits pybody.splits pydata.splits if_splits)
qed

lemma identity_try_events:
  "ev \<in> set (identity_try w r a) \<Longrightarrow>
   ev = Call GetCallerIdentity \<or>
   (\<exists>ident. get_caller_identity w = Inr ident \<and>
      ev = Stdout (JsonDumps (identity_doc ident r a)))"
  by (cases "get_caller_identity w")
     (auto simp: identity_try_def and_then_remote json_dumps_def and_then_compute print_def
        split: if_splits)

lemma identity_try_call: "operations (identity_try w r a) = [Identity]"
  by (cases "get_caller_identity w")
     (auto simp: identity_try_def and_then_remote json_dumps_def and_then_compute print_def)

lemma operations_converse_process: "operations (fst (converse_process w resp)) = []"
  by (rule operations_stdout) (auto dest: converse_process_events)

lemma operations_invoke_process: "operations (fst (invoke_process w resp)) = []"
  by (rule operations_stdout) (auto dest: invoke_process_events)

lemma operations_converse_try:
  "operations (fst (converse_try w (arn_of w) (prompt_of w))) = [Conversational]"
  by (cases "converse_result w")
     (simp_all add: converse_try_raise converse_try_return converse_start_def
        converse_call_def operations_append operations_converse_process)

lemma operations_invoke_try:
  "operations (fst (invoke_try w (arn_of w) (prompt_of w))) = [RawInvocation]"
  by (cases "invoke_result w")
     (simp_all add: invoke_try_raise invoke_try_return invoke_start_def
        invoke_call_def operations_append operations_invoke_process)

lemma operations_except:
  "operations (converse_except e) = []" "operations (invoke_except e) = []"
  by (simp_all add: converse_except_def invoke_except_def)

lemma operations_diagnostics: "operations (diagnostics w r a) = [Identity]"
  by (simp add: diagnostics_def operations_append identity_try_call)

text \<open>The banner is printed by the diagnostics only.\<close>

lemma banner_not_in_process:
  "Stderr t \<notin> set (fst (converse_process w resp))"
  "Stderr t \<notin> set (fst (invoke_process w iresp))"
  by (auto dest: converse_process_events invoke_process_events)

lemma no_stderr_in_converse_try: "Stderr t \<notin> set (fst (converse_try w (arn_of w) (prompt_of w)))"
  by (cases "converse_result w")
     (simp_all add: converse_try_raise converse_try_return converse_start_def banner_not_in_process)

lemma no_stderr_in_invoke_try: "Stderr t \<notin> set (fst (invoke_try w (arn_of w) (prompt_of w)))"
  by (cases "invoke_result w")
     (simp_all add: invoke_try_raise invoke_try_return invoke_start_def banner_not_in_process)

lemma banner_not_in_except:
  "Stderr (Lit banner) \<notin> set (converse_except e)" "Stderr (Lit banner) \<notin> set (invoke_except e)"
  by (simp_all add: converse_except_def invoke_except_def banner_def nl_def)

lemma banner_not_in_missing: "Stderr (Lit banner) \<notin> set (fst missing_arn)"
  by (simp add: missing_arn_def arn_error_lines_def banner_def nl_def)

lemma banner_not_in_region: "Stderr (Lit banner) \<notin> set (fst (resolve_region r))"
  by (auto dest!: resolve_region_events simp: banner_def region_warning_def nl_def)

text \<open>
  Claim C7. The remote operations of a run are called at most once each and in the fixed
  order pre-check, conversational call, raw invocation, identity check; a run stops
  after any of them. The raw invocation is called only when the conversational attempt
  failed; the identity check is called, and the failure banner printed, only when both
  attempts failed.
\<close>

theorem each_strategy_at_most_once_in_order:
  "operations (trace w) \<in>
     {[], [Profile], [Conversational], [Profile, Conversational],
      [Conversational, RawInvocation], [Profile, Conversational, RawInvocation],
      [Conversational, RawInvocation, Identity],
      [Profile, Conversational, RawInvocation, Identity]} \<and>
   (RawInvocation \<in> set (operations (trace w)) \<longrightarrow> converse_fails w) \<and>
   (Identity \<in> set (operations (trace w)) \<longrightarrow> converse_fails w \<and> invoke_fails w) \<and>
   (Stderr (Lit banner) \<in> set (trace w) \<longrightarrow> converse_fails w \<and> invoke_fails w)"
proof (cases w rule: main_cases)
  case (region_error e)
  then show ?thesis by (simp add: trace_def)
next
  case missing
  then show ?thesis
    using banner_not_in_missing by (simp add: trace_def operations_missing_arn)
next
  case (clients_error e)
  then show ?thesis
    using banner_not_in_region by (simp add: trace_def operations_resolve_region)
next
  case (uncaught e)
  then show ?thesis
    using operations_prelude [of w] banner_not_in_prelude [of w] by (auto simp: trace_def)
next
  case (converse_ok evc)
  from converse_ok(2) operations_converse_try [of w] no_stderr_in_converse_try [of _ w]
  have "operations evc = [Conversational]" and "Stderr (Lit banner) \<notin> set evc"
    by simp_all
  with converse_ok(3) show ?thesis
    using operations_prelude [of w] banner_not_in_prelude [of w]
    by (auto simp: trace_def operations_append)
next
  case (invoke_ok evc e1 evi)
  from invoke_ok(2) operations_converse_try [of w] no_stderr_in_converse_try [of _ w]
  have c: "operations evc = [Conversational]" "Stderr (Lit banner) \<notin> set evc"
    by simp_all
  from invoke_ok(3) operations_invoke_try [of w] no_stderr_in_invoke_try [of _ w]
  have i: "operations evi = [RawInvocation]" "Stderr (Lit banner) \<notin> set evi"
    by simp_all
  from invoke_ok(2) have f: "converse_fails w"
    by (simp add: converse_fails_def raised_def)
  from invoke_ok(4) c i f show ?thesis
    using operations_prelude [of w] banner_not_in_prelude [of w]
    by (auto simp: trace_def operations_append operations_except banner_not_in_except)
next
  case (exhausted evc e1 evi e2)
  from exhausted(2) operations_converse_try [of w]
  have c: "operations evc = [Conversational]"
    by simp
  from exhausted(3) operations_invoke_try [of w]
  have i: "operations evi = [RawInvocation]"
    by simp
  from exhausted(2,3) have f: "converse_fails w" "invoke_fails w"
    by (simp_all add: converse_fails_def invoke_fails_def raised_def)
  from exhausted(4) c i f show ?thesis
    using operations_prelude [of w]
    by (auto simp: trace_def operations_append operations_except operations_diagnostics)
qed

theorem each_strategy_at_most_once_in_order_witness:
  "operations (trace w_exhausted) = [Conversational, RawInvocation, Identity] \<and>
   Stderr (Lit banner) \<in> set (trace w_exhausted) \<and>
   converse_fails w_exhausted \<and> invoke_fails w_exhausted"
proof -
  have a: "operations (trace w_exhausted) = [Conversational, RawInvocation, Identity]"
    by (simp add: program_defs example_defs observation_defs converse_call_def invoke_call_def)
  then have b: "Identity \<in> set (operations (trace w_exhausted))"
    by simp
  have c: "Stderr (Lit banner) \<in> set (trace w_exhausted)"
    by (simp add: program_defs example_defs observation_defs)
  from each_strategy_at_most_once_in_order [of w_exhausted] a b c show ?thesis
    by blast
qed

section \<open>Exceptions raised after a call has answered\<close>

text \<open>The operations of \<open>main\<close> itself never raise a \<open>ClientError\<close>.\<close>

lemma py_get_exn: "py_get v k d = Inl e \<Longrightarrow> e = AttributeError"
  by (cases v) (simp_all split: option.splits)

lemma py_iter_exn: "py_iter v = Inl e \<Longrightarrow> e = TypeError"
  by (cases v) simp_all

lemma py_contains_exn: "py_contains k v = Inl e \<Longrightarrow> e = TypeError"
  by (cases v) simp_all

lemma py_getitem_exn: "py_getitem v k = Inl e \<Longrightarrow> e = TypeError \<or> e = KeyError"
  by (cases v) (simp_all split: option.splits)

lemma collect_texts_exn: "collect_texts ps acc = Inl e \<Longrightarrow> \<not> is_ClientError e"
proof (induction ps arbitrary: acc)
  case Nil
  then show ?case by simp
next
  case (Cons p ps)
  then show ?case
    by (auto split: sum.splits if_splits dest: py_contains_exn py_getitem_exn)
qed

lemma join_nl_exn: "join_nl ts = Inl e \<Longrightarrow> e = TypeError"
  by (induction ts rule: join_nl.induct) (auto split: sum.splits)

lemma extract_texts_exn: "extract_texts v = Inl e \<Longrightarrow> \<not> is_ClientError e"
  by (auto simp: extract_texts_def split: sum.splits
      dest: py_get_exn py_iter_exn collect_texts_exn)

lemma print_exn: "snd (print w t) = Inl e \<Longrightarrow> e = UnicodeEncodeError"
  by (simp add: print_def split: if_splits)

lemma print_exn_pair: "print w t = (evs, Inl e) \<Longrightarrow> e = UnicodeEncodeError"
  by (simp add: print_def split: if_splits)

lemma converse_process_exn: "snd (converse_process w resp) = Inl e \<Longrightarrow> \<not> is_ClientError e"
  by (auto simp: converse_process_def and_then_def compute_def
      split: sum.splits prod.splits if_splits
      dest: py_get_exn extract_texts_exn join_nl_exn print_exn print_exn_pair)

lemma invoke_process_exn:
  "snd (invoke_process w resp) = Inl e \<Longrightarrow>
   e = UnicodeDecodeError \<or> e = UnicodeEncodeError \<or>
   map_of resp ''body'' = Some (Stream (Inl e))"
  by (auto simp: invoke_process_data
      split: sum.splits option.splits pybody.splits pydata.splits if_splits
      dest: print_exn)

text \<open>A world whose conversational call, or raw invocation, raises \<open>e\<close> at once.\<close>

lemma converse_update_print: "print (w\<lparr>converse := f\<rparr>) t = print w t"
  by (simp add: print_def print_raises_def)

lemma invoke_update_print: "print (w\<lparr>invoke_model := f\<rparr>) t = print w t"
  by (simp add: print_def print_raises_def)

lemma converse_update_try: "invoke_try (w\<lparr>converse := f\<rparr>) a p = invoke_try w a p"
  unfolding invoke_try_def invoke_process_def converse_update_print by simp

lemma converse_update_verify: "verify_profile (w\<lparr>converse := f\<rparr>) a = verify_profile w a"
  unfolding verify_profile_def verify_try_def converse_update_print by simp

lemma converse_update_diagnostics: "diagnostics (w\<lparr>converse := f\<rparr>) r a = diagnostics w r a"
  unfolding diagnostics_def identity_try_def converse_update_print by simp

lemma converse_update_same:
  "arn_of (w\<lparr>converse := f\<rparr>) = arn_of w"
  "prompt_of (w\<lparr>converse := f\<rparr>) = prompt_of w"
  "region_of (w\<lparr>converse := f\<rparr>) = region_of w"
  "prelude (w\<lparr>converse := f\<rparr>) = prelude w"
  "converse_start (w\<lparr>converse := f\<rparr>) = converse_start w"
  "invoke_try (w\<lparr>converse := f\<rparr>) a p = invoke_try w a p"
  "diagnostics (w\<lparr>converse := f\<rparr>) r a = diagnostics w r a"
  "converse_called (w\<lparr>converse := f\<rparr>) = converse_called w"
  by (simp_all add: arn_of_def prompt_of_def region_of_def ambient_region_def prelude_def
      converse_start_def resolve_arn_def getenv_default_def
      converse_called_iff configured_def converse_update_try converse_update_verify
      converse_update_diagnostics)

lemma invoke_update_try: "converse_try (w\<lparr>invoke_model := f\<rparr>) a p = converse_try w a p"
  unfolding converse_try_def converse_process_def invoke_update_print by simp

lemma invoke_update_verify: "verify_profile (w\<lparr>invoke_model := f\<rparr>) a = verify_profile w a"
  unfolding verify_profile_def verify_try_def invoke_update_print by simp

lemma invoke_update_diagnostics:
  "diagnostics (w\<lparr>invoke_model := f\<rparr>) r a = diagnostics w r a"
  unfolding diagnostics_def identity_try_def invoke_update_print by simp

lemma invoke_update_same:
  "arn_of (w\<lparr>invoke_model := f\<rparr>) = arn_of w"
  "prompt_of (w\<lparr>invoke_model := f\<rparr>) = prompt_of w"
  "region_of (w\<lparr>invoke_model := f\<rparr>) = region_of w"
  "prelude (w\<lparr>invoke_model := f\<rparr>) = prelude w"
  "invoke_start (w\<lparr>invoke_model := f\<rparr>) = invoke_start w"
  "converse_try (w\<lparr>invoke_model := f\<rparr>) a p = converse_try w a p"
  "diagnostics (w\<lparr>invoke_model := f\<rparr>) r a = diagnostics w r a"
  "converse_called (w\<lparr>invoke_model := f\<rparr>) = converse_called w"
  by (simp_all add: arn_of_def prompt_of_def region_of_def ambient_region_def prelude_def
      invoke_start_def resolve_arn_def getenv_default_def
      converse_called_iff configured_def invoke_update_try invoke_update_verify
      invoke_update_diagnostics)

text \<open>A run whose conversational attempt fails goes on with the fallback.\<close>

lemma after_converse_failure:
  assumes "converse_called w"
    and "converse_try w (arn_of w) (prompt_of w) = (evc, Inl e)"
  shows "main w = (prelude w @ evc @ converse_except e @ fst (fallback w), snd (fallback w))"
proof -
  from assms(1) have "configured w" and "snd (verify_profile w (arn_of w)) = None"
    by (simp_all add: converse_called_iff)
  with assms(2) show ?thesis
    by (simp add: main_attempts attempts_def converse_attempt_def
        fallback_def split: prod.splits bool.splits)
qed

lemma fallback_starts: "\<exists>rest. fst (fallback w) = invoke_start w @ rest"
  by (cases "invoke_result w")
     (auto simp: fallback_def invoke_attempt_def invoke_try_raise invoke_try_return
        split: prod.splits sum.splits bool.splits)

lemma fallback_outcome: "snd (fallback w) = (if invoke_fails w then Exit 1 else Returned)"
  by (cases "invoke_try w (arn_of w) (prompt_of w)")
     (auto simp: fallback_def invoke_attempt_def invoke_fails_def raised_def
        split: prod.splits sum.splits bool.splits)

lemma fallback_failure:
  "invoke_try w (arn_of w) (prompt_of w) = (evi, Inl e) \<Longrightarrow>
   fallback w = (evi @ invoke_except e @ diagnostics w (region_of w) (arn_of w), Exit 1)"
  by (simp add: fallback_def invoke_attempt_def)

lemma fallback_converse_update: "fallback (w\<lparr>converse := f\<rparr>) = fallback w"
  unfolding fallback_def invoke_attempt_def converse_update_same ..

text \<open>
  Claim C10. In a run where the conversational call is made: when that call answers and
  an exception \<open>e\<close> is then raised while its response is processed or printed, \<open>e\<close> is not a
  \<open>ClientError\<close>, the generic handler prints it, and the run goes on with the fallback
  exactly as the run in which the call itself raises \<open>e\<close>: after the call the two traces
  differ only by what was printed before the exception, and the outcomes are the same.
  Likewise, when the conversational attempt failed and the raw invocation answers but
  processing or printing its response raises \<open>e'\<close>, the handler of that attempt prints it and the run
  goes on to the terminal diagnostics and \<open>sys.exit(1)\<close>, as the run in which the call
  raises \<open>e'\<close>; \<open>e'\<close> is a \<open>ClientError\<close> only if the stream's \<open>read\<close> raised one, and
  otherwise the handler is the generic one.
\<close>

theorem processing_exception_fails_attempt:
  assumes "converse_called w"
  shows
    "(converse_result w = Inr resp \<and> snd (converse_process w resp) = Inl e \<longrightarrow>
        \<not> is_ClientError e \<and> converse_fails w \<and>
        trace w = prelude w @ converse_start w @ fst (converse_process w resp) @
          [Stderr (Lit ''Converse attempt error:''), Stderr (ReprExn e)] @ fst (fallback w) \<and>
        trace (w\<lparr>converse := (\<lambda>a m c. Inl e)\<rparr>) = prelude w @ converse_start w @
          [Stderr (Lit ''Converse attempt error:''), Stderr (ReprExn e)] @ fst (fallback w) \<and>
        (\<exists>rest. fst (fallback w) = invoke_start w @ rest) \<and>
        result w = result (w\<lparr>converse := (\<lambda>a m c. Inl e)\<rparr>) \<and>
        result w = (if invoke_fails w then Exit 1 else Returned)) \<and>
     (converse_fails w \<and> invoke_result w = Inr iresp \<and> snd (invoke_process w iresp) = Inl e' \<longrightarrow>
        invoke_fails w \<and>
        (is_ClientError e' \<longrightarrow> map_of iresp ''body'' = Some (Stream (Inl e'))) \<and>
        (\<not> is_ClientError e' \<longrightarrow>
           invoke_except e' = [Stderr (Lit ''InvokeModel attempt error:''), Stderr (ReprExn e')]) \<and>
        (\<exists>pre. trace w = pre @ invoke_start w @ fst (invoke_process w iresp) @
                  invoke_except e' @ diagnostics w (region_of w) (arn_of w) \<and>
                trace (w\<lparr>invoke_model := (\<lambda>a ct ac b. Inl e')\<rparr>) = pre @ invoke_start w @
                  invoke_except e' @ diagnostics w (region_of w) (arn_of w)) \<and>
        result w = Exit 1 \<and> result (w\<lparr>invoke_model := (\<lambda>a ct ac b. Inl e')\<rparr>) = Exit 1)"
proof (intro conjI impI)
  assume h: "converse_result w = Inr resp \<and> snd (converse_process w resp) = Inl e"
  let ?w = "w\<lparr>converse := (\<lambda>a m c. Inl e)\<rparr>"
  from h converse_process_exn [of w resp e] show n: "\<not> is_ClientError e"
    by blast
  from h have c: "converse_try w (arn_of w) (prompt_of w) =
      (converse_start w @ fst (converse_process w resp), Inl e)"
    by (simp add: converse_try_return)
  then show "converse_fails w"
    by (simp add: converse_fails_def raised_def)
  from after_converse_failure [OF assms c] n
  have m: "main w = (prelude w @ converse_start w @ fst (converse_process w resp) @
      [Stderr (Lit ''Converse attempt error:''), Stderr (ReprExn e)] @ fst (fallback w),
      snd (fallback w))"
    by (simp add: converse_except_def)
  have "converse_result ?w = Inl e"
    by (simp add: converse_result_def)
  then have c': "converse_try ?w (arn_of ?w) (prompt_of ?w) = (converse_start ?w, Inl e)"
    by (rule converse_try_raise)
  have "converse_called ?w"
    using assms by (simp add: converse_update_same)
  from after_converse_failure [OF this c'] n
  have m': "main ?w = (prelude w @ converse_start w @
      [Stderr (Lit ''Converse attempt error:''), Stderr (ReprExn e)] @ fst (fallback w),
      snd (fallback w))"
    by (simp add: converse_except_def converse_update_same fallback_converse_update)
  from m show "trace w = prelude w @ converse_start w @ fst (converse_process w resp) @
          [Stderr (Lit ''Converse attempt error:''), Stderr (ReprExn e)] @ fst (fallback w)"
    by (simp add: trace_def)
  from m' show "trace ?w = prelude w @ converse_start w @
          [Stderr (Lit ''Converse attempt error:''), Stderr (ReprExn e)] @ fst (fallback w)"
    by (simp add: trace_def)
  show "\<exists>rest. fst (fallback w) = invoke_start w @ rest"
    by (rule fallback_starts)
  from m m' show "result w = result ?w"
    by (simp add: result_def)
  from m show "result w = (if invoke_fails w then Exit 1 else Returned)"
    by (simp add: result_def fallback_outcome)
next
  assume h: "converse_fails w \<and> invoke_result w = Inr iresp \<and> snd (invoke_process w iresp) = Inl e'"
  let ?w = "w\<lparr>invoke_model := (\<lambda>a ct ac b. Inl e')\<rparr>"
  from h obtain evc e1 where c: "converse_try w (arn_of w) (prompt_of w) = (evc, Inl e1)"
    unfolding converse_fails_def by (auto elim: raisedE)
  from h have i: "invoke_try w (arn_of w) (prompt_of w) =
      (invoke_start w @ fst (invoke_process w iresp), Inl e')"
    by (simp add: invoke_try_return)
  then show "invoke_fails w"
    by (simp add: invoke_fails_def raised_def)
  from h invoke_process_exn [of w iresp e']
  show "is_ClientError e' \<Longrightarrow> map_of iresp ''body'' = Some (Stream (Inl e'))"
    by auto
  show "\<not> is_ClientError e' \<Longrightarrow>
      invoke_except e' = [Stderr (Lit ''InvokeModel attempt error:''), Stderr (ReprExn e')]"
    by (simp add: invoke_except_def)
  from called_exhausted [OF assms c i]
  have m: "main w = ((prelude w @ evc @ converse_except e1) @ invoke_start w @
      fst (invoke_process w iresp) @ invoke_except e' @ diagnostics w (region_of w) (arn_of w),
      Exit 1)"
    by simp
  have "invoke_result ?w = Inl e'"
    by (simp add: invoke_result_def)
  then have i': "invoke_try ?w (arn_of ?w) (prompt_of ?w) = (invoke_start ?w, Inl e')"
    by (rule invoke_try_raise)
  have called': "converse_called ?w"
    using assms by (simp add: invoke_update_same)
  have c': "converse_try ?w (arn_of ?w) (prompt_of ?w) = (evc, Inl e1)"
    using c by (simp add: invoke_update_same)
  from called_exhausted [OF called' c' i']
  have m': "main ?w = ((prelude w @ evc @ converse_except e1) @ invoke_start w @
      invoke_except e' @ diagnostics w (region_of w) (arn_of w), Exit 1)"
    by (simp add: invoke_update_same)
  from m m' show "\<exists>pre. trace w = pre @ invoke_start w @ fst (invoke_process w iresp) @
                  invoke_except e' @ diagnostics w (region_of w) (arn_of w) \<and>
                trace ?w = pre @ invoke_start w @
                  invoke_except e' @ diagnostics w (region_of w) (arn_of w)"
    unfolding trace_def by (intro exI [of _ "prelude w @ evc @ converse_except e1"]) simp
  from m show "result w = Exit 1"
    by (simp add: result_def)
  from m' show "result ?w = Exit 1"
    by (simp add: result_def)
qed

theorem processing_exception_fails_attempt_witness:
  "converse_called w_malformed \<and>
   converse_result w_malformed = Inr (PDict [(''output'', PList [PStr ''Hello.''])]) \<and>
   converse_process w_malformed (PDict [(''output'', PList [PStr ''Hello.''])]) =
     ([], Inl AttributeError) \<and>
   converse_fails w_malformed \<and>
   invoke_result w_malformed = Inr [(''body'', Direct (Bytes [CHR 0xFF, CHR 0xFE]))] \<and>
   invoke_process w_malformed [(''body'', Direct (Bytes [CHR 0xFF, CHR 0xFE]))] =
     ([Stdout (Lit ''InvokeModel response:'')], Inl UnicodeDecodeError) \<and>
   invoke_fails w_malformed \<and>
   result w_malformed = Exit 1 \<and>
   result (w_malformed\<lparr>converse := (\<lambda>a m c. Inl AttributeError)\<rparr>) = Exit 1"
proof -
  have a: "converse_called w_malformed"
    by (simp add: program_defs example_defs observation_defs converse_call_def)
  have b: "converse_result w_malformed = Inr (PDict [(''output'', PList [PStr ''Hello.''])])"
    by (simp add: converse_result_def w_malformed_def w_hello_def)
  have c: "converse_process w_malformed (PDict [(''output'', PList [PStr ''Hello.''])]) =
      ([], Inl AttributeError)"
    by (simp add: converse_process_def extract_texts_def step_simps)
  have d: "invoke_result w_malformed = Inr [(''body'', Direct (Bytes [CHR 0xFF, CHR 0xFE]))]"
    by (simp add: invoke_result_def w_malformed_def w_hello_def)
  have e: "invoke_process w_malformed [(''body'', Direct (Bytes [CHR 0xFF, CHR 0xFE]))] =
     ([Stdout (Lit ''InvokeModel response:'')], Inl UnicodeDecodeError)"
    by (simp add: invoke_process_data byte_in_def)
  note t = processing_exception_fails_attempt [OF a,
      of "PDict [(''output'', PList [PStr ''Hello.''])]" AttributeError
         "[(''body'', Direct (Bytes [CHR 0xFF, CHR 0xFE]))]" UnicodeDecodeError]
  from t b c have f: "converse_fails w_malformed"
    and g: "result w_malformed = result (w_malformed\<lparr>converse := (\<lambda>a m c. Inl AttributeError)\<rparr>)"
    by simp_all
  from t f d e have h: "invoke_fails w_malformed" and k: "result w_malformed = Exit 1"
    by simp_all
  from a b c d e f g h k show ?thesis
    by simp
qed

section \<open>Exceptions of the remote calls\<close>

text \<open>
  Claim C1, as amended. In a run where the conversational call is made: an exception
  of that call, or of the raw invocation, that is not a \<open>ClientError\<close> is printed by
  \<open>repr\<close> on the diagnostic stream, after the line that names the attempt, and the run
  goes on with the next step (the raw-invocation attempt, the terminal diagnostics); an
  exception of the identity check is swallowed, nothing is printed for it, and the run
  goes on to the checklist and \<open>sys.exit(1)\<close>; and the run ends by returning or by
  \<open>sys.exit(1)\<close>, never by an exception that leaves \<open>main\<close>. Nothing is said here of
  the pre-check.
\<close>

theorem later_call_errors_are_recovered:
  assumes "converse_called w"
  shows
    "(converse_result w = Inl e \<and> \<not> is_ClientError e \<longrightarrow>
        trace w = prelude w @ converse_start w @
          [Stderr (Lit ''Converse attempt error:''), Stderr (ReprExn e)] @ fst (fallback w) \<and>
        (\<exists>rest. fst (fallback w) = invoke_start w @ rest)) \<and>
     (converse_fails w \<and> invoke_result w = Inl e2 \<and> \<not> is_ClientError e2 \<longrightarrow>
        (\<exists>pre. trace w = pre @ invoke_start w @
           [Stderr (Lit ''InvokeModel attempt error:''), Stderr (ReprExn e2),
            Stderr (Lit banner)] @
           identity_try w (region_of w) (arn_of w) @ [Stderr (Lit checklist)]) \<and>
        result w = Exit 1) \<and>
     (converse_fails w \<and> invoke_fails w \<and> get_caller_identity w = Inl e3 \<longrightarrow>
        (\<exists>pre. trace w = pre @
           [Stderr (Lit banner), Call GetCallerIdentity, Stderr (Lit checklist)]) \<and>
        result w = Exit 1) \<and>
     (result w = Returned \<or> result w = Exit 1)"
proof (intro conjI impI)
  assume h: "converse_result w = Inl e \<and> \<not> is_ClientError e"
  then have "converse_try w (arn_of w) (prompt_of w) = (converse_start w, Inl e)"
    by (simp add: converse_try_raise)
  from after_converse_failure [OF assms this] h
  show "trace w = prelude w @ converse_start w @
          [Stderr (Lit ''Converse attempt error:''), Stderr (ReprExn e)] @ fst (fallback w)"
    by (simp add: trace_def converse_except_def)
  show "\<exists>rest. fst (fallback w) = invoke_start w @ rest"
    by (rule fallback_starts)
next
  assume h: "converse_fails w \<and> invoke_result w = Inl e2 \<and> \<not> is_ClientError e2"
  then obtain evc e1 where c: "converse_try w (arn_of w) (prompt_of w) = (evc, Inl e1)"
    unfolding converse_fails_def by (auto elim: raisedE)
  from h have i: "invoke_try w (arn_of w) (prompt_of w) = (invoke_start w, Inl e2)"
    by (simp add: invoke_try_raise)
  from called_exhausted [OF assms c i] h
  have m: "main w = ((prelude w @ evc @ converse_except e1) @ invoke_start w @
      [Stderr (Lit ''InvokeModel attempt error:''), Stderr (ReprExn e2), Stderr (Lit banner)] @
      identity_try w (region_of w) (arn_of w) @ [Stderr (Lit checklist)], Exit 1)"
    by (simp add: invoke_except_def diagnostics_def)
  then show "\<exists>pre. trace w = pre @ invoke_start w @
           [Stderr (Lit ''InvokeModel attempt error:''), Stderr (ReprExn e2),
            Stderr (Lit banner)] @
           identity_try w (region_of w) (arn_of w) @ [Stderr (Lit checklist)]"
    unfolding trace_def by (intro exI [of _ "prelude w @ evc @ converse_except e1"]) simp
  from m show "result w = Exit 1"
    by (simp add: result_def)
next
  assume h: "converse_fails w \<and> invoke_fails w \<and> get_caller_identity w = Inl e3"
  then obtain evc e1 where c: "converse_try w (arn_of w) (prompt_of w) = (evc, Inl e1)"
    unfolding converse_fails_def by (auto elim: raisedE)
  from h obtain evi e2 where i: "invoke_try w (arn_of w) (prompt_of w) = (evi, Inl e2)"
    unfolding invoke_fails_def by (auto elim: raisedE)
  from called_exhausted [OF assms c i] h
  have m: "main w = ((prelude w @ evc @ converse_except e1 @ evi @ invoke_except e2) @
      [Stderr (Lit banner), Call GetCallerIdentity, Stderr (Lit checklist)], Exit 1)"
    by (simp add: diagnostics_def identity_try_def and_then_remote)
  then show "\<exists>pre. trace w = pre @
           [Stderr (Lit banner), Call GetCallerIdentity, Stderr (Lit checklist)]"
    unfolding trace_def
    by (intro exI [of _ "prelude w @ evc @ converse_except e1 @ evi @ invoke_except e2"]) simp
  from m show "result w = Exit 1"
    by (simp add: result_def)
next
  show "result w = Returned \<or> result w = Exit 1"
  proof (cases w rule: main_cases)
    case (region_error e)
    with assms show ?thesis by simp
  next
    case missing
    with assms show ?thesis by simp
  next
    case (clients_error e)
    with assms show ?thesis by simp
  next
    case (uncaught e)
    with assms show ?thesis by simp
  qed (simp_all add: result_def)
qed

theorem later_call_errors_are_recovered_witness:
  "converse_called w_unexpected \<and>
   converse_result w_unexpected = Inl (OtherError ''ReadTimeoutError'') \<and>
   invoke_result w_unexpected = Inl (OtherError ''ReadTimeoutError'') \<and>
   get_caller_identity w_unexpected = Inl (OtherError ''ReadTimeoutError'') \<and>
   converse_fails w_unexpected \<and> invoke_fails w_unexpected \<and>
   result w_unexpected = Exit 1 \<and>
   (\<exists>pre. trace w_unexpected = pre @ invoke_start w_unexpected @
      [Stderr (Lit ''InvokeModel attempt error:''),
       Stderr (ReprExn (OtherError ''ReadTimeoutError'')),
       Stderr (Lit banner)] @
      identity_try w_unexpected (region_of w_unexpected) (arn_of w_unexpected) @
      [Stderr (Lit checklist)])"
proof -
  have a: "converse_called w_unexpected"
    by (simp add: program_defs example_defs observation_defs converse_call_def)
  have b: "converse_result w_unexpected = Inl (OtherError ''ReadTimeoutError'')"
    by (simp add: converse_result_def w_unexpected_def w_hello_def)
  have c: "invoke_result w_unexpected = Inl (OtherError ''ReadTimeoutError'')"
    by (simp add: invoke_result_def w_unexpected_def w_hello_def)
  have d: "get_caller_identity w_unexpected = Inl (OtherError ''ReadTimeoutError'')"
    by (simp add: w_unexpected_def w_hello_def)
  have f: "converse_fails w_unexpected"
    using b by (simp add: converse_fails_def raised_def converse_try_raise)
  have g: "invoke_fails w_unexpected"
    using c by (simp add: invoke_fails_def raised_def invoke_try_raise)
  have n: "\<not> is_ClientError (OtherError ''ReadTimeoutError'')"
    by simp
  note t = later_call_errors_are_recovered [OF a,
      of "OtherError ''ReadTimeoutError''" "OtherError ''ReadTimeoutError''"
         "OtherError ''ReadTimeoutError''"]
  from t f c n have "(\<exists>pre. trace w_unexpected = pre @ invoke_start w_unexpected @
      [Stderr (Lit ''InvokeModel attempt error:''),
       Stderr (ReprExn (OtherError ''ReadTimeoutError'')),
       Stderr (Lit banner)] @
      identity_try w_unexpected (region_of w_unexpected) (arn_of w_unexpected) @
      [Stderr (Lit checklist)])" and "result w_unexpected = Exit 1"
    by blast+
  with a b c d f g show ?thesis
    by blast
qed

text \<open>
  Claim C1 as it is written fails on the identity check, whose handler is
  \<open>except Exception: pass\<close>: in the run \<open>w_silent\<close> that call raises an error that is not
  a \<open>ClientError\<close>, and from the banner on the run prints the banner and the checklist
  only; the exception is rendered on neither stream.
\<close>

theorem identity_error_is_not_printed:
  "get_caller_identity w_silent = Inl (OtherError ''EndpointConnectionError'') \<and>
   \<not> is_ClientError (OtherError ''EndpointConnectionError'') \<and>
   from_banner (trace w_silent) =
     [Stderr (Lit banner), Call GetCallerIdentity, Stderr (Lit checklist)] \<and>
   Stderr (ReprExn (OtherError ''EndpointConnectionError'')) \<notin> set (trace w_silent) \<and>
   Stderr (StrExn (OtherError ''EndpointConnectionError'')) \<notin> set (trace w_silent) \<and>
   Stdout (ReprExn (OtherError ''EndpointConnectionError'')) \<notin> set (trace w_silent) \<and>
   Stdout (StrExn (OtherError ''EndpointConnectionError'')) \<notin> set (trace w_silent) \<and>
   result w_silent = Exit 1"
  by (simp add: program_defs example_defs observation_defs from_banner_def banner_def
      profile_warning_def region_warning_def)

text \<open>
  The pre-check has no handler for an exception that is not a \<open>ClientError\<close>: in the
  run \<open>w_precheck\<close> the call fails for want of credentials, and the exception leaves
  \<open>main\<close> before either attempt is made.
\<close>

lemma precheck_error_leaves_main:
  "main w_precheck =
     ([Call (GetInferenceProfile example_arn)], Uncaught (OtherError ''NoCredentialsError''))"
  by (simp add: program_defs example_defs)

section \<open>The two streams\<close>

lemma lines_apart: "s \<in> set info_lines \<Longrightarrow> s \<notin> set diagnostic_lines"
  by (auto simp: info_lines_def diagnostic_lines_def arn_error_lines_def verified_line_def
      skip_line_def converse_notice_def invoke_notice_def region_warning_def
      profile_warning_def banner_def checklist_def nl_def)

lemma kinds_apart: "\<not> (informational t \<and> diagnostic_text t)"
  by (cases t) (auto dest: lines_apart)

lemma diagnostic_text_fixed:
  "region_warning \<in> set diagnostic_lines" "profile_warning \<in> set diagnostic_lines"
  "''Converse attempt failed:'' \<in> set diagnostic_lines"
  "''Converse attempt error:'' \<in> set diagnostic_lines"
  "''InvokeModel attempt failed:'' \<in> set diagnostic_lines"
  "''InvokeModel attempt error:'' \<in> set diagnostic_lines"
  "banner \<in> set diagnostic_lines" "checklist \<in> set diagnostic_lines"
  by (simp_all add: diagnostic_lines_def)

lemma informational_fixed:
  "verified_line \<in> set info_lines" "skip_line \<in> set info_lines"
  "converse_notice \<in> set info_lines" "''Converse response:'' \<in> set info_lines"
  "invoke_notice \<in> set info_lines" "''InvokeModel response:'' \<in> set info_lines"
  by (simp_all add: info_lines_def)

lemma is_dump:
  "get_caller_identity w = Inr ident \<Longrightarrow>
   identity_dump w (JsonDumps (identity_doc ident (region_of w) (arn_of w)))"
  by (simp add: identity_dump_def)

lemma not_dump: "\<not> identity_dump w (Lit s)" "\<not> identity_dump w (StrExn e)"
  "\<not> identity_dump w (ReprExn e)"
  by (simp_all add: identity_dump_def split: sum.splits)

lemma placed_missing: "list_all (placed w) (fst missing_arn)"
  by (simp add: missing_arn_def list_all_iff diagnostic_lines_def not_dump)

lemma placed_region: "list_all (placed w) (fst (resolve_region r))"
  by (auto simp: list_all_iff diagnostic_text_fixed not_dump dest!: resolve_region_events)

lemma placed_prelude: "list_all (placed w) (prelude w)"
  by (auto simp: list_all_iff diagnostic_text_fixed informational_fixed not_dump
      dest!: prelude_events)

lemma placed_converse_try: "list_all (placed w) (fst (converse_try w (arn_of w) (prompt_of w)))"
  by (cases "converse_result w")
     (auto simp: converse_try_raise converse_try_return converse_start_def list_all_iff
        informational_fixed dest!: converse_process_events)

lemma placed_invoke_try: "list_all (placed w) (fst (invoke_try w (arn_of w) (prompt_of w)))"
  by (cases "invoke_result w")
     (auto simp: invoke_try_raise invoke_try_return invoke_start_def list_all_iff
        informational_fixed dest!: invoke_process_events)

lemma placed_except:
  "list_all (placed w) (converse_except e)" "list_all (placed w) (invoke_except e)"
  by (simp_all add: converse_except_def invoke_except_def diagnostic_text_fixed not_dump)

lemma placed_diagnostics: "list_all (placed w) (diagnostics w (region_of w) (arn_of w))"
  by (auto simp: diagnostics_def list_all_iff diagnostic_text_fixed not_dump is_dump
      dest!: identity_try_events)

lemma placed_trace: "list_all (placed w) (trace w)"
proof (cases w rule: main_cases)
  case (region_error e)
  then show ?thesis by (simp add: trace_def)
next
  case missing
  then show ?thesis by (simp add: trace_def placed_missing)
next
  case (clients_error e)
  then show ?thesis by (simp add: trace_def placed_region)
next
  case (uncaught e)
  then show ?thesis by (simp add: trace_def placed_prelude)
next
  case (converse_ok evc)
  with placed_converse_try [of w] show ?thesis
    by (simp add: trace_def placed_prelude)
next
  case (invoke_ok evc e1 evi)
  with placed_converse_try [of w] placed_invoke_try [of w] show ?thesis
    by (simp add: trace_def placed_prelude placed_except)
next
  case (exhausted evc e1 evi e2)
  with placed_converse_try [of w] placed_invoke_try [of w] show ?thesis
    by (simp add: trace_def placed_prelude placed_except placed_diagnostics)
qed

text \<open>
  Claim C6, as amended. No content is both informational and diagnostic. In every run,
  what goes to the diagnostic stream is a warning, an error or a diagnostic (a fixed
  line of that kind or the rendering of an exception), and what goes to standard output
  is informational or success content (a fixed notice or header, the dump of a profile or
  of a response, text of a response), with one exception: the dump of the caller's
  identity, printed in the terminal-diagnostics phase when the identity check answers,
  goes to standard output. In that phase the banner and the checklist go to the
  diagnostic stream.
\<close>

theorem streams_are_separated:
  "(\<forall>t. \<not> (informational t \<and> diagnostic_text t)) \<and>
   (\<forall>t. Stderr t \<in> set (trace w) \<longrightarrow> diagnostic_text t \<and> \<not> identity_dump w t) \<and>
   (\<forall>t. Stdout t \<in> set (trace w) \<longrightarrow> informational t \<or> identity_dump w t) \<and>
   (\<forall>ev \<in> set (diagnostics w r a).
      ev = Stderr (Lit banner) \<or> ev = Stderr (Lit checklist) \<or> ev = Call GetCallerIdentity \<or>
      (\<exists>ident. get_caller_identity w = Inr ident \<and>
         ev = Stdout (JsonDumps (identity_doc ident r a))))"
proof (intro conjI allI impI ballI)
  fix t
  show "\<not> (informational t \<and> diagnostic_text t)"
    by (rule kinds_apart)
next
  fix t
  assume "Stderr t \<in> set (trace w)"
  with placed_trace [of w] have p: "placed w (Stderr t)"
    unfolding list_all_iff by blast
  then show "diagnostic_text t" by simp
  from p show "\<not> identity_dump w t" by simp
next
  fix t
  assume "Stdout t \<in> set (trace w)"
  with placed_trace [of w] have "placed w (Stdout t)"
    unfolding list_all_iff by blast
  then show "informational t \<or> identity_dump w t" by simp
next
  fix ev
  assume "ev \<in> set (diagnostics w r a)"
  then show "ev = Stderr (Lit banner) \<or> ev = Stderr (Lit checklist) \<or>
      ev = Call GetCallerIdentity \<or>
      (\<exists>ident. get_caller_identity w = Inr ident \<and>
         ev = Stdout (JsonDumps (identity_doc ident r a)))"
    by (auto simp: diagnostics_def dest!: identity_try_events)
qed

theorem streams_are_separated_witness:
  "Stderr (Lit checklist) \<in> set (trace w_exhausted) \<and> diagnostic_text (Lit checklist) \<and>
   Stdout (Lit converse_notice) \<in> set (trace w_exhausted) \<and>
   informational (Lit converse_notice) \<and> \<not> diagnostic_text (Lit converse_notice) \<and>
   Stdout (JsonDumps (identity_doc example_identity ''us-east-1'' example_arn))
     \<in> set (trace w_exhausted) \<and>
   identity_dump w_exhausted
     (JsonDumps (identity_doc example_identity ''us-east-1'' example_arn)) \<and>
   Stdout (JsonDumps (identity_doc example_identity ''us-east-1'' example_arn))
     \<in> set (diagnostics w_exhausted ''us-east-1'' example_arn) \<and>
   get_caller_identity w_exhausted = Inr example_identity"
proof -
  have a: "Stderr (Lit checklist) \<in> set (trace w_exhausted)"
    by (simp add: program_defs example_defs observation_defs)
  have b: "Stdout (JsonDumps (identity_doc example_identity ''us-east-1'' example_arn))
      \<in> set (trace w_exhausted)"
    by (simp add: program_defs example_defs observation_defs)
  have c: "Stdout (JsonDumps (identity_doc example_identity ''us-east-1'' example_arn))
      \<in> set (diagnostics w_exhausted ''us-east-1'' example_arn)"
    by (simp add: program_defs example_defs)
  have d: "get_caller_identity w_exhausted = Inr example_identity"
    by (simp add: w_exhausted_def w_hello_def)
  have e: "Stdout (Lit converse_notice) \<in> set (trace w_exhausted)"
    by (simp add: program_defs example_defs observation_defs)
  have f: "identity_dump w_exhausted
      (JsonDumps (identity_doc example_identity ''us-east-1'' example_arn))"
    by (simp add: identity_dump_def program_defs example_defs observation_defs)
  have g: "\<not> identity_dump w_exhausted (Lit converse_notice)"
    by (rule not_dump)
  note t = streams_are_separated [of w_exhausted "''us-east-1''" example_arn]
  from t a have h: "diagnostic_text (Lit checklist)"
    by blast
  from t e g have i: "informational (Lit converse_notice)"
    by blast
  with t have j: "\<not> diagnostic_text (Lit converse_notice)"
    by blast
  from a b c d e f h i j show ?thesis
    by blast
qed

text \<open>
  Claim C6 as it is written fails in the terminal-diagnostics phase: in the run
  \<open>w_exhausted\<close> both attempts fail, and between the banner and the checklist the dump of
  the caller's identity, which is diagnostic content, is printed on standard output
  (line 109 uses \<open>print\<close>).
\<close>

theorem identity_dump_goes_to_stdout:
  "converse_fails w_exhausted \<and> invoke_fails w_exhausted \<and>
   from_banner (trace w_exhausted) =
     [Stderr (Lit banner), Call GetCallerIdentity,
      Stdout (JsonDumps (identity_doc example_identity ''us-east-1'' example_arn)),
      Stderr (Lit checklist)] \<and>
   \<not> as_specified
     (Stdout (JsonDumps (identity_doc example_identity ''us-east-1'' example_arn))) \<and>
   result w_exhausted = Exit 1"
  by (simp add: program_defs example_defs observation_defs from_banner_def banner_def
      profile_warning_def region_warning_def)

end
